theory Spec2Isabelle
  imports Complex_Main "HOL-Library.AList"
begin

section \<open>Strings\<close>

text \<open>
  A JavaScript string is modelled as a \<open>string\<close>: a list of 8-bit characters, each
  standing for the UTF-16 code unit of the same number. The model therefore covers the
  strings over U+0000 .. U+00FF; the functions below are the runtime's string functions
  restricted to that range.
\<close>

text \<open>\<open>String.prototype.trim\<close> strips white space and line terminators from both ends.
  Below U+0100 these are TAB, LF, VT, FF, CR, SPACE and NBSP.\<close>

definition is_space :: "char \<Rightarrow> bool" where
  "is_space c =
     (c = CHR 0x09 \<or> c = CHR 0x0A \<or> c = CHR 0x0B \<or> c = CHR 0x0C \<or> c = CHR 0x0D \<or>
      c = CHR 0x20 \<or> c = CHR 0xA0)"

definition trim :: "string \<Rightarrow> string" where
  "trim s = rev (dropWhile is_space (rev (dropWhile is_space s)))"

text \<open>\<open>s.indexOf(c)\<close> for a one-character needle; \<open>None\<close> is the source's \<open>-1\<close>.\<close>

fun indexOf :: "string \<Rightarrow> char \<Rightarrow> nat option" where
  "indexOf [] c = None"
| "indexOf (x # xs) c = (if x = c then Some 0 else map_option Suc (indexOf xs c))"

text \<open>\<open>a.startsWith('-')\<close>.\<close>

definition startsWith_dash :: "string \<Rightarrow> bool" where
  "startsWith_dash a = (case a of [] \<Rightarrow> False | c # _ \<Rightarrow> c = CHR ''-'')"

text \<open>\<open>a.replace(/^--?/, '')\<close>: one leading dash is removed, and a second one if it
  follows; a string that does not start with a dash is unchanged.\<close>

definition replace_leading_dashes :: "string \<Rightarrow> string" where
  "replace_leading_dashes a =
     (case a of
        [] \<Rightarrow> []
      | c # r \<Rightarrow>
          if c = CHR ''-''
          then (case r of [] \<Rightarrow> [] | d # r' \<Rightarrow> if d = CHR ''-'' then r' else r)
          else a)"

text \<open>\<open>s.replace(/\/$/, '')\<close>: the pattern has no \<open>m\<close> flag, so \<open>$\<close> is the end of the
  string, and at most one slash is removed.\<close>

definition replace_trailing_slash :: "string \<Rightarrow> string" where
  "replace_trailing_slash s = (if s \<noteq> [] \<and> last s = CHR ''/'' then butlast s else s)"

text \<open>The decimal numeral of a natural number, as a template literal prints an integer.\<close>

definition digit :: "nat \<Rightarrow> char" where
  "digit d = ''0123456789'' ! d"

fun show_nat :: "nat \<Rightarrow> string" where
  "show_nat n = (if n < 10 then [digit n] else show_nat (n div 10) @ [digit (n mod 10)])"

declare show_nat.simps [simp del]

section \<open>The command line: \<open>parseArgs\<close> and \<open>parseHeaders\<close>\<close>

text \<open>A flag's value is \<open>string | boolean | string[]\<close>.\<close>

datatype flagval = FStr string | FBool bool | FArr "string list"

text \<open>
  \<open>Record<string, ...>\<close>: a JavaScript object, as the list of its own properties in the
  order of their creation. A property is read with \<open>map_of\<close>. (JavaScript enumerates keys
  that are array indices before the others; no statement below depends on the place of
  such a key.)
\<close>

type_synonym flagmap = "(string \<times> flagval) list"

record ParsedArgs =
  envFile :: "string option"
  command :: "string option"
  params :: "string list"
  flags :: flagmap

text \<open>
  \<open>flags[k] = v\<close> on an object made by \<open>{}\<close>: the property is updated in place or
  created last. The name \<open>__proto__\<close> is the accessor inherited from \<open>Object.prototype\<close>,
  whose setter ignores a value that is neither an object nor \<open>null\<close> and creates no own
  property. The only computed key of \<open>parseArgs\<close> is the one of the boolean branch, where the
  value is \<open>true\<close>; the keys \<open>url\<close>, \<open>event\<close> and \<open>header\<close> are literal.
\<close>

definition assign :: "string \<Rightarrow> flagval \<Rightarrow> flagmap \<Rightarrow> flagmap" where
  "assign k v fl = (if k = ''__proto__'' then fl else AList.update k v fl)"

text \<open>
  \<open>ensureArray(k).push(v)\<close>: unless \<open>flags[k]\<close> is an array it is replaced by an empty
  one; then \<open>v\<close> is pushed onto that array.
\<close>

definition ensureArray :: "string \<Rightarrow> flagmap \<Rightarrow> flagmap \<times> string list" where
  "ensureArray k fl =
     (case map_of fl k of
        Some (FArr xs) \<Rightarrow> (fl, xs)
      | _ \<Rightarrow> (assign k (FArr []) fl, []))"

definition push_flag :: "string \<Rightarrow> string \<Rightarrow> flagmap \<Rightarrow> flagmap" where
  "push_flag k v fl = (case ensureArray k fl of (fl', xs) \<Rightarrow> assign k (FArr (xs @ [v])) fl')"

text \<open>
  The first loop of \<open>parseArgs\<close> (global flags before the command). The index \<open>i\<close> of the
  source is the number of tokens already dropped; the loop returns the env file and the
  tokens from \<open>i\<close> on.
\<close>

fun global_flags :: "string list \<Rightarrow> string option \<Rightarrow> string option \<times> string list" where
  "global_flags (a # v # rest) env =
     (if a = ''--env'' then global_flags rest (Some v) else (env, a # v # rest))"
| "global_flags args env = (env, args)"

text \<open>The second loop (the tokens after the command), on the tokens from \<open>i\<close> on.\<close>

function command_flags :: "string list \<Rightarrow> flagmap \<Rightarrow> string list \<Rightarrow> flagmap \<times> string list" where
  "command_flags [] fl ps = (fl, ps)"
| "command_flags (a # rest) fl ps =
     (if a = ''--env'' then command_flags (drop 1 rest) fl ps
      else if a = ''--url'' \<and> rest \<noteq> []
        then command_flags (tl rest) (assign ''url'' (FStr (hd rest)) fl) ps
      else if (a = ''--event'' \<or> a = ''-e'') \<and> rest \<noteq> []
        then command_flags (tl rest) (push_flag ''event'' (hd rest) fl) ps
      else if (a = ''--header'' \<or> a = ''-H'') \<and> rest \<noteq> []
        then command_flags (tl rest) (push_flag ''header'' (hd rest) fl) ps
      else if startsWith_dash a
        then command_flags rest (assign (replace_leading_dashes a) (FBool True) fl) ps
      else command_flags rest fl (ps @ [a]))"
  by pat_completeness auto
termination
  by (relation "measure (\<lambda>(args, fl, ps). length args)") auto

declare command_flags.simps(2) [simp del]

definition parseArgs :: "string list \<Rightarrow> ParsedArgs" where
  "parseArgs argv =
     (let out = \<lparr>envFile = None, command = None, params = [], flags = []\<rparr>;
          args = drop 2 argv
      in if args = [] \<or> ''--help'' \<in> set args \<or> ''-h'' \<in> set args then out
         else
           (case global_flags args None of
              (env, rest) \<Rightarrow>
                (case command_flags (drop 1 rest) [] [] of
                   (fl, ps) \<Rightarrow>
                     \<lparr>envFile = env,
                      command = (case rest of [] \<Rightarrow> None | c # _ \<Rightarrow> Some c),
                      params = ps, flags = fl\<rparr>)))"

text \<open>
  Notions the statements about the parser use: the array a flag holds (none when the flag
  is absent or not an array), a run of \<open>--event\<close>/\<open>-e\<close> options with their values, and a
  run of \<open>--env\<close> options with theirs.
\<close>

definition current_array :: "string \<Rightarrow> flagmap \<Rightarrow> string list" where
  "current_array k fl = (case map_of fl k of Some (FArr xs) \<Rightarrow> xs | _ \<Rightarrow> [])"

definition event_pair :: "string \<times> string \<Rightarrow> bool" where
  "event_pair av = (fst av = ''--event'' \<or> fst av = ''-e'')"

definition pair_tokens :: "(string \<times> string) list \<Rightarrow> string list" where
  "pair_tokens avs = concat (map (\<lambda>av. [fst av, snd av]) avs)"

definition env_tokens :: "string list \<Rightarrow> string list" where
  "env_tokens vs = concat (map (\<lambda>v. [''--env'', v]) vs)"

text \<open>
  The options that take the next token as their value, and the token lists that the second
  loop reads to their end with no option left waiting for its value. After such a list
  the loop reads the next token as a token of its own.
\<close>

definition value_flag :: "string \<Rightarrow> bool" where
  "value_flag a =
     (a = ''--url'' \<or> a = ''--event'' \<or> a = ''-e'' \<or> a = ''--header'' \<or> a = ''-H'')"

fun complete_tokens :: "string list \<Rightarrow> bool" where
  "complete_tokens [] = True"
| "complete_tokens [a] = (a \<noteq> ''--env'' \<and> \<not> value_flag a)"
| "complete_tokens (a # v # rest) =
     (if a = ''--env'' \<or> value_flag a then complete_tokens rest else complete_tokens (v # rest))"

text \<open>
  Every exception of the program is an \<open>Error\<close> with a message. The two others are raised
  by the runtime: \<open>SyntaxError\<close>, with the message the JSON parser gives it, when
  \<open>res.json()\<close> rejects a body that is not JSON, and \<open>TypeError\<close> when \<open>fetch\<close> rejects
  because no response arrived.
\<close>

datatype error = Error string | SyntaxError string | TypeError

record WebhookHeader =
  name :: string
  value' :: string

text \<open>The \<open>for\<close> loop of \<open>parseHeaders\<close>; \<open>out\<close> is the array built so far.\<close>

fun parseHeaders_loop :: "string list \<Rightarrow> WebhookHeader list \<Rightarrow> error + WebhookHeader list" where
  "parseHeaders_loop [] out = Inr out"
| "parseHeaders_loop (v # vs) out =
     (case indexOf v CHR ''='' of
        None \<Rightarrow> Inl (Error (''Invalid --header value: '' @ v @ ''. Expected key=value.''))
      | Some idx \<Rightarrow>
          if trim (take idx v) = []
          then Inl (Error (''Invalid --header value: '' @ v @ ''. Name is empty.''))
          else parseHeaders_loop vs
                 (out @ [\<lparr>name = trim (take idx v), value' = trim (drop (idx + 1) v)\<rparr>]))"

text \<open>
  The argument is \<open>string[] | string | boolean | undefined\<close>: \<open>None\<close> is \<open>undefined\<close>, and
  the result \<open>None\<close> is the \<open>undefined\<close> the source returns for "no headers".
\<close>

definition parseHeaders :: "flagval option \<Rightarrow> error + WebhookHeader list option" where
  "parseHeaders values =
     (case values of
        None \<Rightarrow> Inr None
      | Some (FBool b) \<Rightarrow> Inr None
      | Some (FStr s) \<Rightarrow>
          if s = [] then Inr None
          else map_sum id (\<lambda>out. if out \<noteq> [] then Some out else None) (parseHeaders_loop [s] [])
      | Some (FArr arr) \<Rightarrow>
          map_sum id (\<lambda>out. if out \<noteq> [] then Some out else None) (parseHeaders_loop arr []))"

text \<open>
  Header tokens as the specification describes them: the token \<open>p=q\<close> whose part \<open>p\<close>
  before the first \<open>=\<close> has a non-empty trimmed form, and the header it stands for.
\<close>

definition header_token :: "string \<times> string \<Rightarrow> string" where
  "header_token pq = fst pq @ ''='' @ snd pq"

definition header_of :: "string \<times> string \<Rightarrow> WebhookHeader" where
  "header_of pq = \<lparr>name = trim (fst pq), value' = trim (snd pq)\<rparr>"

definition valid_pair :: "string \<times> string \<Rightarrow> bool" where
  "valid_pair pq = (CHR ''='' \<notin> set (fst pq) \<and> trim (fst pq) \<noteq> [])"

section \<open>JavaScript values\<close>

text \<open>
  What \<open>res.json()\<close> yields, and \<open>undefined\<close>, which no JSON text denotes but which
  \<open>normalizeWebhook\<close> can store. An object is the list of its own properties in the order
  of their creation, as for the flags above; its keys are distinct. A number is a finite
  one, and the program observes of it only whether it is zero.
\<close>

datatype jsval =
    Undefined
  | Null
  | Bool bool
  | Num rat
  | Str string
  | Arr "jsval list"
  | Obj "(string \<times> jsval) list"

text \<open>Truthiness, as \<open>if (data)\<close> and \<open>!data\<close> test it.\<close>

fun truthy :: "jsval \<Rightarrow> bool" where
  "truthy Undefined = False"
| "truthy Null = False"
| "truthy (Bool b) = b"
| "truthy (Num n) = (n \<noteq> 0)"
| "truthy (Str s) = (s \<noteq> [])"
| "truthy (Arr xs) = True"
| "truthy (Obj kvs) = True"

text \<open>\<open>a ?? b\<close>: the right operand replaces \<open>null\<close> and \<open>undefined\<close> only.\<close>

fun nullish :: "jsval \<Rightarrow> bool" where
  "nullish Undefined = True"
| "nullish Null = True"
| "nullish v = False"

definition coalesce :: "jsval \<Rightarrow> jsval \<Rightarrow> jsval" where
  "coalesce a b = (if nullish a then b else a)"

text \<open>
  \<open>data?.k\<close> for the property names the program reads: \<open>id\<close>, \<open>_id\<close>, \<open>webhookId\<close>,
  \<open>uuid\<close>, \<open>items\<close> and \<open>access_token\<close>. None of them is an index, \<open>length\<close> or a name
  inherited from a prototype, so only an object can have one.
\<close>

fun opt_get :: "jsval \<Rightarrow> string \<Rightarrow> jsval" where
  "opt_get (Obj kvs) k = (case map_of kvs k of Some v \<Rightarrow> v | None \<Rightarrow> Undefined)"
| "opt_get v k = Undefined"

text \<open>
  The own enumerable properties that \<open>...data\<close> copies: those of an object, the elements
  of an array under their indices, the code units of a string under theirs, and none for
  the other values.
\<close>

fun own_props :: "jsval \<Rightarrow> (string \<times> jsval) list" where
  "own_props (Obj kvs) = kvs"
| "own_props (Arr xs) = zip (map show_nat [0..<length xs]) xs"
| "own_props (Str s) = zip (map show_nat [0..<length s]) (map (\<lambda>c. Str [c]) s)"
| "own_props v = []"

text \<open>\<open>{ k0: v0, ...data }\<close>: each copied property overwrites in place or is added last.\<close>

definition spread :: "(string \<times> jsval) list \<Rightarrow> jsval \<Rightarrow> (string \<times> jsval) list" where
  "spread obj data = foldl (\<lambda>acc kv. AList.update (fst kv) (snd kv) acc) obj (own_props data)"

section \<open>The client\<close>

definition normalizeWebhook :: "jsval \<Rightarrow> jsval" where
  "normalizeWebhook data =
     (let ident =
            coalesce (coalesce (coalesce (opt_get data ''id'') (opt_get data ''_id''))
                        (opt_get data ''webhookId''))
              (opt_get data ''uuid'')
      in Obj (spread [(''id'', ident)] data))"

record OAuthConfig =
  authEndpoint :: string
  clientID :: string
  clientSecret :: string
  scopes :: "string option"

text \<open>The client object has the three fields of its configuration.\<close>

record CarerixConfig =
  baseUrl :: string
  applicationId :: string
  oauth :: OAuthConfig

definition constructor :: "CarerixConfig \<Rightarrow> CarerixConfig" where
  "constructor config =
     \<lparr>baseUrl = replace_trailing_slash (baseUrl config),
      applicationId = applicationId config,
      oauth = oauth config\<rparr>"

subsection \<open>The runtime: \<open>fetch\<close>, responses and output\<close>

text \<open>
  A request body before it is serialized: the pairs of a \<open>URLSearchParams\<close>, or the value
  handed to \<open>JSON.stringify\<close>.
\<close>

datatype body = NoBody | FormBody "(string \<times> string) list" | JsonBody jsval

record request =
  req_url :: string
  req_method :: string
  req_headers :: "(string \<times> string) list"
  req_body :: body

text \<open>
  A response: \<open>res_text\<close> is what \<open>res.text()\<close> resolves to (\<open>None\<close> when it rejects) and
  \<open>res_json\<close> what \<open>res.json()\<close> resolves to (\<open>Inr\<close>), or the message of the
  \<open>SyntaxError\<close> it rejects with when the body is not JSON (\<open>Inl\<close>). The parser writes
  that message, and it may quote the body.
\<close>

record response =
  res_status :: nat
  res_statusText :: string
  res_text :: "string option"
  res_json :: "string + jsval"

text \<open>\<open>res.ok\<close>: the status is in the range 200 to 299.\<close>

definition ok :: "response \<Rightarrow> bool" where
  "ok res = (200 \<le> res_status res \<and> res_status res \<le> 299)"

text \<open>\<open>await res.text().catch(() => '')\<close>.\<close>

definition text_or_empty :: "response \<Rightarrow> string" where
  "text_or_empty res = (case res_text res of Some t \<Rightarrow> t | None \<Rightarrow> [])"

text \<open>
  The runtime answers a request or not (\<open>None\<close>: \<open>fetch\<close> rejects), and converts a value
  that is not a string to one where a template literal needs it.
\<close>

record runtime =
  fetch :: "request \<Rightarrow> response option"
  toString :: "jsval \<Rightarrow> string"

definition template :: "runtime \<Rightarrow> jsval \<Rightarrow> string" where
  "template rt v = (case v of Str s \<Rightarrow> s | _ \<Rightarrow> toString rt v)"

text \<open>
  What an operation does to the world, in order: the requests it issues and the values it
  prints with \<open>console.log\<close>. An operation yields its events and its outcome.
\<close>

datatype event = Fetched request | Logged jsval

type_synonym 'a io = "event list \<times> (error + 'a)"

definition io_return :: "'a \<Rightarrow> 'a io" where
  "io_return x = ([], Inr x)"

definition io_throw :: "error \<Rightarrow> 'a io" where
  "io_throw e = ([], Inl e)"

definition io_bind :: "'a io \<Rightarrow> ('a \<Rightarrow> 'b io) \<Rightarrow> 'b io" where
  "io_bind m f =
     (case m of
        (t, Inl e) \<Rightarrow> (t, Inl e)
      | (t, Inr x) \<Rightarrow> (case f x of (t', r) \<Rightarrow> (t @ t', r)))"

definition await_fetch :: "runtime \<Rightarrow> request \<Rightarrow> response io" where
  "await_fetch rt req =
     ([Fetched req], case fetch rt req of None \<Rightarrow> Inl TypeError | Some res \<Rightarrow> Inr res)"

fun requested_urls :: "event list \<Rightarrow> string list" where
  "requested_urls [] = []"
| "requested_urls (Fetched req # es) = req_url req # requested_urls es"
| "requested_urls (Logged v # es) = requested_urls es"

text \<open>
  \<open>encodeURIComponent\<close>: letters, digits and \<open>- _ . ! ~ * ' ( )\<close> stay; every other code
  unit is replaced by the \<open>%XX\<close> escapes of its UTF-8 bytes, one byte below U+0080 and two
  from there to U+00FF.
\<close>

definition unreserved :: "char \<Rightarrow> bool" where
  "unreserved c =
     (c \<in> set (''ABCDEFGHIJKLMNOPQRSTUVWXYZ'' @ ''abcdefghijklmnopqrstuvwxyz'' @
               ''0123456789'' @ ''-_.!~*()'' @ [CHR 0x27]))"

definition hex_digit :: "nat \<Rightarrow> char" where
  "hex_digit d = ''0123456789ABCDEF'' ! d"

definition percent :: "nat \<Rightarrow> string" where
  "percent b = [CHR ''%'', hex_digit (b div 16), hex_digit (b mod 16)]"

definition encode_unit :: "char \<Rightarrow> string" where
  "encode_unit c =
     (if unreserved c then [c]
      else if (of_char c :: nat) < 128 then percent (of_char c)
      else percent (192 + of_char c div 64) @ percent (128 + of_char c mod 64))"

definition encodeURIComponent :: "string \<Rightarrow> string" where
  "encodeURIComponent s = concat (map encode_unit s)"

subsection \<open>Token acquisition\<close>

definition token_request :: "CarerixConfig \<Rightarrow> request" where
  "token_request c =
     \<lparr>req_url = authEndpoint (oauth c),
      req_method = ''POST'',
      req_headers = [(''Content-Type'', ''application/x-www-form-urlencoded'')],
      req_body =
        FormBody
          ([(''grant_type'', ''client_credentials''),
            (''client_id'', clientID (oauth c)),
            (''client_secret'', clientSecret (oauth c))] @
           (case scopes (oauth c) of
              None \<Rightarrow> []
            | Some s \<Rightarrow> if s \<noteq> [] then [(''scope'', s)] else []))\<rparr>"

text \<open>The message of a failed call: \<open>`<what> ${res.status} ${res.statusText} ${text}`\<close>.\<close>

definition failure :: "string \<Rightarrow> response \<Rightarrow> string" where
  "failure what res =
     what @ show_nat (res_status res) @ '' '' @ res_statusText res @ '' '' @ text_or_empty res"

definition getAccessToken :: "runtime \<Rightarrow> CarerixConfig \<Rightarrow> jsval io" where
  "getAccessToken rt c =
     io_bind (await_fetch rt (token_request c)) (\<lambda>res.
       if \<not> ok res then io_throw (Error (failure ''Failed to fetch access token: '' res))
       else
         (case res_json res of
            Inl msg \<Rightarrow> io_throw (SyntaxError msg)
          | Inr data \<Rightarrow>
              if \<not> truthy (opt_get data ''access_token'')
              then io_throw (Error ''No access_token in OAuth response'')
              else io_return (opt_get data ''access_token'')))"

definition authHeaders :: "runtime \<Rightarrow> CarerixConfig \<Rightarrow> (string \<times> string) list io" where
  "authHeaders rt c =
     io_bind (getAccessToken rt c) (\<lambda>token.
       ([Logged token], Inr [(''Authorization'', ''Bearer '' @ template rt token)]))"

definition appUrl :: "CarerixConfig \<Rightarrow> string \<Rightarrow> string" where
  "appUrl c path = baseUrl c @ ''/applications/'' @ applicationId c @ path"

subsection \<open>The public operations\<close>

text \<open>The request of an operation: \<open>fetch(this.appUrl(path), { method, headers, body })\<close>.\<close>

definition api_request ::
  "CarerixConfig \<Rightarrow> string \<Rightarrow> string \<Rightarrow> (string \<times> string) list \<Rightarrow> body \<Rightarrow> request" where
  "api_request c m path hs b =
     \<lparr>req_url = appUrl c path, req_method = m, req_headers = hs, req_body = b\<rparr>"

text \<open>\<open>const data = await res.json(); return normalizeWebhook(data)\<close>.\<close>

definition normalized_json :: "response \<Rightarrow> jsval io" where
  "normalized_json res =
     (case res_json res of
        Inl msg \<Rightarrow> io_throw (SyntaxError msg)
      | Inr data \<Rightarrow> io_return (normalizeWebhook data))"

text \<open>The request \<open>req\<close> of \<open>createWebhook\<close> is given by its own properties.\<close>

definition createWebhook :: "runtime \<Rightarrow> CarerixConfig \<Rightarrow> (string \<times> jsval) list \<Rightarrow> jsval io" where
  "createWebhook rt c req =
     io_bind (authHeaders rt c) (\<lambda>headers.
     io_bind
       (await_fetch rt
          (api_request c ''POST'' ''/webhooks''
             (headers @ [(''Content-Type'', ''application/json'')])
             (JsonBody (Obj (spread [(''_kind'', Str ''Webhook'')] (Obj req))))))
       (\<lambda>res.
          if \<not> ok res then io_throw (Error (failure ''Create webhook failed: '' res))
          else normalized_json res))"

text \<open>The shapes \<open>listWebhooks\<close> accepts, in the order it tests them.\<close>

definition list_items :: "jsval \<Rightarrow> jsval list" where
  "list_items data =
     (case data of
        Arr xs \<Rightarrow> xs
      | _ \<Rightarrow>
          (case opt_get data ''items'' of
             Arr ys \<Rightarrow> ys
           | _ \<Rightarrow> if truthy data then [data] else []))"

definition listWebhooks :: "runtime \<Rightarrow> CarerixConfig \<Rightarrow> jsval list io" where
  "listWebhooks rt c =
     io_bind (authHeaders rt c) (\<lambda>headers.
     io_bind (await_fetch rt (api_request c ''GET'' ''/webhooks'' headers NoBody)) (\<lambda>res.
       if \<not> ok res then io_throw (Error (failure ''List webhooks failed: '' res))
       else
         (case res_json res of
            Inl msg \<Rightarrow> io_throw (SyntaxError msg)
          | Inr data \<Rightarrow> io_return (map normalizeWebhook (list_items data)))))"

definition enableWebhook :: "runtime \<Rightarrow> CarerixConfig \<Rightarrow> string \<Rightarrow> jsval io" where
  "enableWebhook rt c webhookId =
     io_bind (authHeaders rt c) (\<lambda>headers.
     io_bind
       (await_fetch rt
          (api_request c ''POST'' (''/webhooks/'' @ encodeURIComponent webhookId @ ''/enable'')
             headers NoBody))
       (\<lambda>res.
          if \<not> ok res then io_throw (Error (failure ''Enable webhook failed: '' res))
          else normalized_json res))"

definition disableWebhook :: "runtime \<Rightarrow> CarerixConfig \<Rightarrow> string \<Rightarrow> jsval io" where
  "disableWebhook rt c webhookId =
     io_bind (authHeaders rt c) (\<lambda>headers.
     io_bind
       (await_fetch rt
          (api_request c ''POST'' (''/webhooks/'' @ encodeURIComponent webhookId @ ''/disable'')
             headers NoBody))
       (\<lambda>res.
          if \<not> ok res then io_throw (Error (failure ''Disable webhook failed: '' res))
          else normalized_json res))"

definition deleteWebhook :: "runtime \<Rightarrow> CarerixConfig \<Rightarrow> string \<Rightarrow> unit io" where
  "deleteWebhook rt c webhookId =
     io_bind (authHeaders rt c) (\<lambda>headers.
     io_bind
       (await_fetch rt
          (api_request c ''DELETE'' (''/webhooks/'' @ encodeURIComponent webhookId) headers NoBody))
       (\<lambda>res.
          if \<not> ok res then io_throw (Error (failure ''Delete webhook failed: '' res))
          else io_return ()))"

subsection \<open>Notions the statements about the client use\<close>

text \<open>
  The identifier as the specification words it: the value of the first of \<open>id\<close>, \<open>_id\<close>,
  \<open>webhookId\<close>, \<open>uuid\<close> that the object has, \<open>undefined\<close> when it has none.
\<close>

definition first_present :: "(string \<times> jsval) list \<Rightarrow> jsval" where
  "first_present kvs =
     (case map_of kvs ''id'' of
        Some v \<Rightarrow> v
      | None \<Rightarrow>
          (case map_of kvs ''_id'' of
             Some v \<Rightarrow> v
           | None \<Rightarrow>
               (case map_of kvs ''webhookId'' of
                  Some v \<Rightarrow> v
                | None \<Rightarrow> (case map_of kvs ''uuid'' of Some v \<Rightarrow> v | None \<Rightarrow> Undefined))))"

text \<open>
  The same with "present" read as "populated": the first of the four values that is
  neither \<open>null\<close> nor \<open>undefined\<close>, \<open>undefined\<close> when there is none.
\<close>

definition first_populated :: "(string \<times> jsval) list \<Rightarrow> jsval" where
  "first_populated kvs =
     (case filter (\<lambda>v. \<not> nullish v)
             (map (opt_get (Obj kvs)) [''id'', ''_id'', ''webhookId'', ''uuid'']) of
        v # _ \<Rightarrow> v
      | [] \<Rightarrow> Undefined)"

text \<open>
  The identifier as amended: the object's own \<open>id\<close> when it has one; otherwise the first
  value of \<open>_id\<close>, \<open>webhookId\<close>, \<open>uuid\<close> that is neither \<open>null\<close> nor \<open>undefined\<close>; and
  without such a value whatever \<open>uuid\<close> holds (\<open>undefined\<close> when absent).
\<close>

definition resolved_id :: "(string \<times> jsval) list \<Rightarrow> jsval" where
  "resolved_id kvs =
     (case map_of kvs ''id'' of
        Some v \<Rightarrow> v
      | None \<Rightarrow>
          (case filter (\<lambda>v. \<not> nullish v) (map (opt_get (Obj kvs)) [''_id'', ''webhookId'', ''uuid'']) of
             v # _ \<Rightarrow> v
           | [] \<Rightarrow> opt_get (Obj kvs) ''uuid''))"

text \<open>\<open>s.includes(n)\<close>: the string \<open>n\<close> occurs in \<open>s\<close>.\<close>

fun str_includes :: "string \<Rightarrow> string \<Rightarrow> bool" where
  "str_includes [] n = (n = [])"
| "str_includes (c # s) n = (take (length n) (c # s) = n \<or> str_includes s n)"

text \<open>
  An outcome that is an error whose message shows the status, the status text and the
  body text of a response.
\<close>

definition shows_response :: "response \<Rightarrow> string \<Rightarrow> bool" where
  "shows_response res msg =
     (str_includes msg (show_nat (res_status res)) \<and> str_includes msg (res_statusText res) \<and>
      str_includes msg (text_or_empty res))"

definition carries_status :: "response \<Rightarrow> error + 'a \<Rightarrow> bool" where
  "carries_status res r =
     (case r of
        Inl (Error msg) \<Rightarrow> shows_response res msg
      | Inl (SyntaxError msg) \<Rightarrow> shows_response res msg
      | _ \<Rightarrow> False)"

text \<open>
  A configuration, and a runtime that answers the token request of that configuration
  with one response and every other request with another.
\<close>

definition example_config :: CarerixConfig where
  "example_config =
     \<lparr>baseUrl = ''https://api.carerix.io/webhooks/v1/'',
      applicationId = ''app-1'',
      oauth = \<lparr>authEndpoint = ''https://id.carerix.io/token'', clientID = ''cid'',
               clientSecret = ''secret'', scopes = Some ''urn:cx/webhooks:data:manage''\<rparr>\<rparr>"

definition example_runtime :: "response \<Rightarrow> response \<Rightarrow> runtime" where
  "example_runtime token_res api_res =
     \<lparr>fetch = (\<lambda>req. if req = token_request example_config then Some token_res
                      else Some api_res),
      toString = (\<lambda>v. ''[object]'')\<rparr>"

definition ok_response :: "string \<Rightarrow> jsval \<Rightarrow> response" where
  "ok_response t data =
     \<lparr>res_status = 200, res_statusText = ''OK'', res_text = Some t, res_json = Inr data\<rparr>"

definition token_response :: response where
  "token_response = ok_response ''{access_token:t0k}'' (Obj [(''access_token'', Str ''t0k'')])"

section \<open>Properties of the parser\<close>

subsection \<open>One step of the second loop\<close>

lemma command_flags_env:
  "command_flags (''--env'' # v # rest) fl ps = command_flags rest fl ps"
  by (simp add: command_flags.simps(2))

lemma command_flags_url:
  "command_flags (''--url'' # v # rest) fl ps = command_flags rest (assign ''url'' (FStr v) fl) ps"
  by (simp add: command_flags.simps(2))

lemma command_flags_event:
  "a = ''--event'' \<or> a = ''-e'' \<Longrightarrow>
   command_flags (a # v # rest) fl ps = command_flags rest (push_flag ''event'' v fl) ps"
  by (auto simp add: command_flags.simps(2))

lemma command_flags_header:
  "a = ''--header'' \<or> a = ''-H'' \<Longrightarrow>
   command_flags (a # v # rest) fl ps = command_flags rest (push_flag ''header'' v fl) ps"
  by (auto simp add: command_flags.simps(2))

lemma command_flags_other:
  "a \<noteq> ''--env'' \<Longrightarrow> \<not> value_flag a \<Longrightarrow>
   command_flags (a # rest) fl ps =
     (if startsWith_dash a
      then command_flags rest (assign (replace_leading_dashes a) (FBool True) fl) ps
      else command_flags rest fl (ps @ [a]))"
  by (simp add: command_flags.simps(2) value_flag_def)

lemma command_flags_value:
  "a = ''--env'' \<or> value_flag a \<Longrightarrow>
   command_flags (a # v # rest) fl ps =
     command_flags rest
       (if a = ''--env'' then fl
        else if a = ''--url'' then assign ''url'' (FStr v) fl
        else if a = ''--event'' \<or> a = ''-e'' then push_flag ''event'' v fl
        else push_flag ''header'' v fl) ps"
  by (auto simp add: command_flags.simps(2) value_flag_def)

lemma command_flags_append:
  "complete_tokens ts \<Longrightarrow>
   command_flags (ts @ after) fl ps =
     command_flags after (fst (command_flags ts fl ps)) (snd (command_flags ts fl ps))"
proof (induction ts arbitrary: fl ps rule: complete_tokens.induct)
  case 1
  then show ?case by simp
next
  case (2 a)
  then have "a \<noteq> ''--env''" and "\<not> value_flag a" by simp_all
  then show ?case
    using command_flags_other [of a after fl ps] command_flags_other [of a "[]" fl ps]
    by simp
next
  case (3 a v rest)
  show ?case
  proof (cases "a = ''--env'' \<or> value_flag a")
    case True
    with "3.prems" have "complete_tokens rest" by simp
    then show ?thesis
      using "3.IH"(1) [OF True] command_flags_value [OF True, of v "rest @ after" fl ps]
        command_flags_value [OF True, of v rest fl ps]
      by simp
  next
    case False
    with "3.prems" have c: "complete_tokens (v # rest)" by simp
    from False have a: "a \<noteq> ''--env''" "\<not> value_flag a" by simp_all
    show ?thesis
      using "3.IH"(2) [OF False c] command_flags_other [OF a, of "v # rest @ after" fl ps]
        command_flags_other [OF a, of "v # rest" fl ps]
      by simp
  qed
qed

lemma command_flags_trailing:
  "value_flag a \<Longrightarrow>
   command_flags [a] fl ps = (AList.update (replace_leading_dashes a) (FBool True) fl, ps)"
  by (auto simp add: value_flag_def command_flags.simps(2) startsWith_dash_def
      replace_leading_dashes_def assign_def)

lemma map_of_assign:
  "k \<noteq> ''__proto__'' \<Longrightarrow> map_of (assign k v fl) = (map_of fl)(k \<mapsto> v)"
  by (simp add: assign_def update_conv')

lemma push_flag_event:
  "map_of (push_flag ''event'' v fl) =
     (map_of fl)(''event'' \<mapsto> FArr (current_array ''event'' fl @ [v]))"
  by (auto simp add: push_flag_def ensureArray_def current_array_def map_of_assign
      split: option.splits flagval.splits)

subsection \<open>A run of event options\<close>

lemma event_run:
  "list_all event_pair avs \<Longrightarrow>
   command_flags (pair_tokens avs @ rest) fl ps =
     command_flags rest (foldl (\<lambda>f av. push_flag ''event'' (snd av) f) fl avs) ps"
proof (induction avs arbitrary: fl)
  case Nil
  then show ?case by (simp add: pair_tokens_def)
next
  case (Cons av avs)
  from Cons.prems have "event_pair av" and avs: "list_all event_pair avs"
    by simp_all
  then have av: "fst av = ''--event'' \<or> fst av = ''-e''"
    unfolding event_pair_def by simp
  have "command_flags (pair_tokens (av # avs) @ rest) fl ps =
          command_flags (pair_tokens avs @ rest) (push_flag ''event'' (snd av) fl) ps"
    using command_flags_event [OF av, of "snd av" "pair_tokens avs @ rest" fl ps]
    by (simp add: pair_tokens_def)
  then show ?case
    using Cons.IH [OF avs, of "push_flag ''event'' (snd av) fl"] by simp
qed

lemma event_fold_array:
  "foldl (\<lambda>f av. push_flag ''event'' (snd av) f) [(''event'', FArr xs)] avs =
     [(''event'', FArr (xs @ map snd avs))]"
  by (induction avs arbitrary: xs) (simp_all add: push_flag_def ensureArray_def assign_def)

lemma event_fold_empty:
  "avs \<noteq> [] \<Longrightarrow>
   foldl (\<lambda>f av. push_flag ''event'' (snd av) f) [] avs = [(''event'', FArr (map snd avs))]"
proof (cases avs)
  case Nil
  assume "avs \<noteq> []"
  with Nil show ?thesis by simp
next
  case (Cons av avs')
  have "push_flag ''event'' (snd av) [] = [(''event'', FArr [snd av])]"
    by (simp add: push_flag_def ensureArray_def assign_def)
  with Cons show ?thesis
    using event_fold_array [of "[snd av]" avs'] by simp
qed

subsection \<open>The first loop\<close>

lemma global_flags_command:
  "c \<noteq> ''--env'' \<Longrightarrow> global_flags (c # tail) env = (env, c # tail)"
  by (cases tail) simp_all

lemma global_flags_env_tokens:
  "c \<noteq> ''--env'' \<Longrightarrow>
   global_flags (env_tokens vs @ c # tail) env =
     (if vs = [] then env else Some (last vs), c # tail)"
proof (induction vs arbitrary: env)
  case Nil
  then show ?case by (simp add: env_tokens_def global_flags_command)
next
  case (Cons v vs)
  have "global_flags (env_tokens (v # vs) @ c # tail) env =
          global_flags (env_tokens vs @ c # tail) (Some v)"
    by (simp add: env_tokens_def)
  then show ?case
    using Cons.IH [OF Cons.prems, of "Some v"] by simp
qed

lemma parseArgs_command:
  assumes "c \<noteq> ''--env''"
    and "''--help'' \<notin> set (env_tokens vs @ c # tail)"
    and "''-h'' \<notin> set (env_tokens vs @ c # tail)"
  shows "parseArgs (n # s # env_tokens vs @ c # tail) =
           \<lparr>envFile = (if vs = [] then None else Some (last vs)), command = Some c,
            params = snd (command_flags tail [] []), flags = fst (command_flags tail [] [])\<rparr>"
  using assms global_flags_env_tokens [OF assms(1), of vs tail None]
  by (simp add: parseArgs_def case_prod_beta)

subsection \<open>The claims about the parser\<close>

text \<open>
  C6. The argument list \<open>create --url https://e/x --event a:created --event b:updated
  --header k=v\<close> (after the program name and the script) parses to the command \<open>create\<close>,
  the flags \<open>url\<close>, \<open>event\<close> (both values, left to right) and \<open>header\<close>, and no positional
  parameter. In general, a token \<open>--event\<close> or \<open>-e\<close> that the loop reaches with a token
  after it appends that token to the array under the key \<open>event\<close> (an empty array when the
  key holds none) and touches no other key; a command followed by a run of such options
  yields exactly the array of their values, in order and with repetitions.
\<close>

theorem parseArgs_event_values:
  "parseArgs [n, s, ''create'', ''--url'', ''https://e/x'', ''--event'', ''a:created'',
              ''--event'', ''b:updated'', ''--header'', ''k=v''] =
     \<lparr>envFile = None, command = Some ''create'', params = [],
      flags = [(''url'', FStr ''https://e/x''),
               (''event'', FArr [''a:created'', ''b:updated'']),
               (''header'', FArr [''k=v''])]\<rparr>
   \<and> (a = ''--event'' \<or> a = ''-e'' \<longrightarrow>
        command_flags (a # v # rest) fl ps = command_flags rest (push_flag ''event'' v fl) ps)
   \<and> map_of (push_flag ''event'' v fl) =
        (map_of fl)(''event'' \<mapsto> FArr (current_array ''event'' fl @ [v]))
   \<and> (list_all event_pair avs \<longrightarrow> avs \<noteq> [] \<longrightarrow> c \<noteq> ''--env'' \<longrightarrow>
        ''--help'' \<notin> set (c # pair_tokens avs) \<longrightarrow> ''-h'' \<notin> set (c # pair_tokens avs) \<longrightarrow>
        parseArgs (n # s # c # pair_tokens avs) =
          \<lparr>envFile = None, command = Some c, params = [],
           flags = [(''event'', FArr (map snd avs))]\<rparr>)"
proof (intro conjI impI)
  show "parseArgs [n, s, ''create'', ''--url'', ''https://e/x'', ''--event'', ''a:created'',
              ''--event'', ''b:updated'', ''--header'', ''k=v''] =
     \<lparr>envFile = None, command = Some ''create'', params = [],
      flags = [(''url'', FStr ''https://e/x''),
               (''event'', FArr [''a:created'', ''b:updated'']),
               (''header'', FArr [''k=v''])]\<rparr>"
    by (simp add: parseArgs_def command_flags.simps(2) assign_def push_flag_def ensureArray_def)
next
  assume "a = ''--event'' \<or> a = ''-e''"
  then show "command_flags (a # v # rest) fl ps = command_flags rest (push_flag ''event'' v fl) ps"
    by (rule command_flags_event)
next
  show "map_of (push_flag ''event'' v fl) =
        (map_of fl)(''event'' \<mapsto> FArr (current_array ''event'' fl @ [v]))"
    by (rule push_flag_event)
next
  assume avs: "list_all event_pair avs" "avs \<noteq> []" and c: "c \<noteq> ''--env''"
    and h: "''--help'' \<notin> set (c # pair_tokens avs)" "''-h'' \<notin> set (c # pair_tokens avs)"
  have "command_flags (pair_tokens avs) [] [] = ([(''event'', FArr (map snd avs))], [])"
    using event_run [OF avs(1), of "[]" "[]" "[]"] event_fold_empty [OF avs(2)] by simp
  then show "parseArgs (n # s # c # pair_tokens avs) =
          \<lparr>envFile = None, command = Some c, params = [],
           flags = [(''event'', FArr (map snd avs))]\<rparr>"
    using parseArgs_command [of c "[]" "pair_tokens avs" n s] c h
    by (simp add: env_tokens_def)
qed

theorem parseArgs_event_values_witness:
  "parseArgs [''node'', ''cli.js'', ''create'', ''--event'', ''a:created'', ''-e'', ''b:updated'',
              ''--event'', ''a:created''] =
     \<lparr>envFile = None, command = Some ''create'', params = [],
      flags = [(''event'', FArr [''a:created'', ''b:updated'', ''a:created''])]\<rparr>
   \<and> command_flags [''-e'', ''x'', ''p''] [(''event'', FArr [''w''])] [] =
       command_flags [''p''] (push_flag ''event'' ''x'' [(''event'', FArr [''w''])]) []
   \<and> map_of (push_flag ''event'' ''x'' [(''event'', FArr [''w''])]) ''event'' =
       Some (FArr [''w'', ''x''])"
proof -
  have "list_all event_pair
          [(''--event'', ''a:created''), (''-e'', ''b:updated''), (''--event'', ''a:created'')]"
    by (simp add: event_pair_def)
  then show ?thesis
    using parseArgs_event_values [of "''node''" "''cli.js''" "''-e''" "''x''" "[''p'']"
        "[(''event'', FArr [''w''])]" "[]"
        "[(''--event'', ''a:created''), (''-e'', ''b:updated''), (''--event'', ''a:created'')]"
        "''create''"]
    by (simp add: pair_tokens_def current_array_def)
qed

text \<open>
  C7. When the arguments after the program name and the script are none, or hold \<open>--help\<close>
  or \<open>-h\<close> at any position, \<open>parseArgs\<close> returns at once: no command, no env file, no
  positional parameter and no flag, whatever the other tokens are.
\<close>

theorem parseArgs_usage:
  "drop 2 argv = [] \<or> ''--help'' \<in> set (drop 2 argv) \<or> ''-h'' \<in> set (drop 2 argv) \<Longrightarrow>
   parseArgs argv = \<lparr>envFile = None, command = None, params = [], flags = []\<rparr>"
  by (auto simp add: parseArgs_def)

theorem parseArgs_usage_witness:
  "parseArgs [''node'', ''cli.js''] = \<lparr>envFile = None, command = None, params = [], flags = []\<rparr>
   \<and> parseArgs [''node'', ''cli.js'', ''--help''] =
       \<lparr>envFile = None, command = None, params = [], flags = []\<rparr>
   \<and> parseArgs [''node'', ''cli.js'', ''--env'', ''prod.env'', ''create'', ''--url'', ''https://e/x'',
                 ''-h'', ''extra''] =
       \<lparr>envFile = None, command = None, params = [], flags = []\<rparr>"
  using parseArgs_usage [of "[''node'', ''cli.js'']"]
    parseArgs_usage [of "[''node'', ''cli.js'', ''--help'']"]
    parseArgs_usage [of "[''node'', ''cli.js'', ''--env'', ''prod.env'', ''create'', ''--url'',
                          ''https://e/x'', ''-h'', ''extra'']"]
  by simp

text \<open>
  C8. An \<open>--env\<close> that the second loop reaches as a token of its own is skipped together
  with the token after it: the loop goes on from the token after the value with the flags
  and the positional parameters it had, so the value reaches neither, and the arguments
  parse as they do without the two tokens. The env file of the result is the one of the
  last \<open>--env\<close> before the command (none without one), whatever follows the command. The
  token after \<open>--url\<close>, \<open>--event\<close>, \<open>-e\<close>, \<open>--header\<close> or \<open>-H\<close> is stored as that flag's
  value and the loop goes on after it: it is not read as a token of its own. (The test for
  \<open>--help\<close> and \<open>-h\<close> comes before both loops, see C7.)
\<close>

theorem env_after_command_discarded:
  "command_flags (''--env'' # v # rest) fl ps = command_flags rest fl ps
   \<and> (complete_tokens ts \<longrightarrow>
        command_flags (ts @ ''--env'' # v # rest) fl ps = command_flags (ts @ rest) fl ps)
   \<and> (c \<noteq> ''--env'' \<longrightarrow>
        ''--help'' \<notin> set (env_tokens vs @ c # tail) \<longrightarrow>
        ''-h'' \<notin> set (env_tokens vs @ c # tail) \<longrightarrow>
        parseArgs (n # s # env_tokens vs @ c # tail) =
          \<lparr>envFile = (if vs = [] then None else Some (last vs)), command = Some c,
           params = snd (command_flags tail [] []), flags = fst (command_flags tail [] [])\<rparr>)
   \<and> (c \<noteq> ''--env'' \<longrightarrow> complete_tokens ts \<longrightarrow>
        ''--help'' \<notin> set (env_tokens vs @ c # ts @ ''--env'' # v # rest) \<longrightarrow>
        ''-h'' \<notin> set (env_tokens vs @ c # ts @ ''--env'' # v # rest) \<longrightarrow>
        parseArgs (n # s # env_tokens vs @ c # ts @ ''--env'' # v # rest) =
          parseArgs (n # s # env_tokens vs @ c # ts @ rest))
   \<and> command_flags (''--url'' # v # rest) fl ps =
       command_flags rest (assign ''url'' (FStr v) fl) ps
   \<and> (a = ''--event'' \<or> a = ''-e'' \<longrightarrow>
        command_flags (a # v # rest) fl ps = command_flags rest (push_flag ''event'' v fl) ps)
   \<and> (a' = ''--header'' \<or> a' = ''-H'' \<longrightarrow>
        command_flags (a' # v # rest) fl ps = command_flags rest (push_flag ''header'' v fl) ps)"
proof (intro conjI impI)
  show "command_flags (''--env'' # v # rest) fl ps = command_flags rest fl ps"
    by (rule command_flags_env)
next
  assume "complete_tokens ts"
  then show "command_flags (ts @ ''--env'' # v # rest) fl ps = command_flags (ts @ rest) fl ps"
    using command_flags_append [of ts "''--env'' # v # rest" fl ps]
      command_flags_append [of ts rest fl ps]
    by (simp add: command_flags_env)
next
  assume "c \<noteq> ''--env''" and "''--help'' \<notin> set (env_tokens vs @ c # tail)"
    and "''-h'' \<notin> set (env_tokens vs @ c # tail)"
  then show "parseArgs (n # s # env_tokens vs @ c # tail) =
          \<lparr>envFile = (if vs = [] then None else Some (last vs)), command = Some c,
           params = snd (command_flags tail [] []), flags = fst (command_flags tail [] [])\<rparr>"
    by (rule parseArgs_command)
next
  assume c: "c \<noteq> ''--env''" and ts: "complete_tokens ts"
    and h1: "''--help'' \<notin> set (env_tokens vs @ c # ts @ ''--env'' # v # rest)"
    and h2: "''-h'' \<notin> set (env_tokens vs @ c # ts @ ''--env'' # v # rest)"
  from h1 h2 have h3: "''--help'' \<notin> set (env_tokens vs @ c # ts @ rest)"
    and h4: "''-h'' \<notin> set (env_tokens vs @ c # ts @ rest)"
    by simp_all
  have "command_flags (ts @ ''--env'' # v # rest) [] [] = command_flags (ts @ rest) [] []"
    using ts command_flags_append [of ts "''--env'' # v # rest" "[]" "[]"]
      command_flags_append [of ts rest "[]" "[]"]
    by (simp add: command_flags_env)
  then show "parseArgs (n # s # env_tokens vs @ c # ts @ ''--env'' # v # rest) =
          parseArgs (n # s # env_tokens vs @ c # ts @ rest)"
    using parseArgs_command [OF c h1 h2, of n s] parseArgs_command [OF c h3 h4, of n s]
    by simp
next
  show "command_flags (''--url'' # v # rest) fl ps =
       command_flags rest (assign ''url'' (FStr v) fl) ps"
    by (rule command_flags_url)
next
  assume "a = ''--event'' \<or> a = ''-e''"
  then show "command_flags (a # v # rest) fl ps = command_flags rest (push_flag ''event'' v fl) ps"
    by (rule command_flags_event)
next
  assume "a' = ''--header'' \<or> a' = ''-H''"
  then show "command_flags (a' # v # rest) fl ps = command_flags rest (push_flag ''header'' v fl) ps"
    by (rule command_flags_header)
qed

theorem env_after_command_discarded_witness:
  "parseArgs [''node'', ''cli.js'', ''--env'', ''a.env'', ''enable'', ''-v'', ''--env'', ''b.env'', ''w-7''] =
     parseArgs [''node'', ''cli.js'', ''--env'', ''a.env'', ''enable'', ''-v'', ''w-7'']
   \<and> parseArgs [''node'', ''cli.js'', ''--env'', ''a.env'', ''enable'', ''-v'', ''--env'', ''b.env'', ''w-7''] =
     \<lparr>envFile = Some ''a.env'', command = Some ''enable'', params = [''w-7''],
      flags = [(''v'', FBool True)]\<rparr>
   \<and> parseArgs [''node'', ''cli.js'', ''list'', ''--env'', ''b.env'', ''x''] =
     \<lparr>envFile = None, command = Some ''list'', params = [''x''], flags = []\<rparr>
   \<and> command_flags [''--url'', ''-e'', ''--header'', ''--url'', ''-H'', ''x''] [] [] =
       ([(''url'', FStr ''-e''), (''header'', FArr [''--url'', ''x''])], [])"
proof -
  have ts: "complete_tokens [''-v'']"
    by (simp add: value_flag_def)
  have run: "command_flags [''-v'', ''w-7''] [] [] = ([(''v'', FBool True)], [''w-7''])"
    by (simp add: command_flags.simps(2) startsWith_dash_def replace_leading_dashes_def assign_def)
  have a: "parseArgs [''node'', ''cli.js'', ''--env'', ''a.env'', ''enable'', ''-v'', ''--env'', ''b.env'', ''w-7''] =
     parseArgs [''node'', ''cli.js'', ''--env'', ''a.env'', ''enable'', ''-v'', ''w-7'']"
    using env_after_command_discarded [where c = "''enable''" and ts = "[''-v'']"
        and vs = "[''a.env'']" and v = "''b.env''" and rest = "[''w-7'']" and n = "''node''"
        and s = "''cli.js''"] ts
    by (simp add: env_tokens_def)
  have b: "parseArgs [''node'', ''cli.js'', ''--env'', ''a.env'', ''enable'', ''-v'', ''w-7''] =
     \<lparr>envFile = Some ''a.env'', command = Some ''enable'', params = [''w-7''],
      flags = [(''v'', FBool True)]\<rparr>"
    using env_after_command_discarded [where c = "''enable''" and vs = "[''a.env'']"
        and tail = "[''-v'', ''w-7'']" and n = "''node''" and s = "''cli.js''"] run
    by (simp add: env_tokens_def)
  have step: "command_flags [''--env'', ''b.env'', ''x''] [] [] = ([], [''x''])"
    using env_after_command_discarded [where v = "''b.env''" and rest = "[''x'']" and fl = "[]"
        and ps = "[]"]
    by (simp add: command_flags.simps(2) startsWith_dash_def)
  have c: "parseArgs [''node'', ''cli.js'', ''list'', ''--env'', ''b.env'', ''x''] =
     \<lparr>envFile = None, command = Some ''list'', params = [''x''], flags = []\<rparr>"
    using env_after_command_discarded [where c = "''list''" and vs = "[]"
        and tail = "[''--env'', ''b.env'', ''x'']" and n = "''node''" and s = "''cli.js''"] step
    by (simp add: env_tokens_def)
  have d: "command_flags [''--url'', ''-e'', ''--header'', ''--url'', ''-H'', ''x''] [] [] =
       ([(''url'', FStr ''-e''), (''header'', FArr [''--url'', ''x''])], [])"
    by (simp add: command_flags.simps(2) assign_def push_flag_def ensureArray_def)
  from a b c d show ?thesis by simp
qed

text \<open>
  C10, as the claim states it, fails: the last token can be one of the five without the
  second loop reaching it as a token of its own. In \<open>create --event -e\<close> the final \<open>-e\<close>
  is the value of \<open>--event\<close>: the result has \<open>-e\<close> in the array under \<open>event\<close> and no
  key \<open>e\<close>. In \<open>create --url u --event --url\<close> the final \<open>--url\<close> is the value of
  \<open>--event\<close>, and \<open>url\<close> keeps the string \<open>u\<close>. A lone \<open>--url\<close> is the command name,
  and in \<open>create --env --url\<close> the loop skips it as the value of \<open>--env\<close>; neither is
  stored as a flag.
\<close>

theorem trailing_value_flag_counterexample:
  "parseArgs [''node'', ''cli.js'', ''create'', ''--event'', ''-e''] =
     \<lparr>envFile = None, command = Some ''create'', params = [],
      flags = [(''event'', FArr [''-e''])]\<rparr>
   \<and> map_of (flags (parseArgs [''node'', ''cli.js'', ''create'', ''--event'', ''-e''])) ''e'' \<noteq>
       Some (FBool True)
   \<and> parseArgs [''node'', ''cli.js'', ''create'', ''--url'', ''u'', ''--event'', ''--url''] =
     \<lparr>envFile = None, command = Some ''create'', params = [],
      flags = [(''url'', FStr ''u''), (''event'', FArr [''--url''])]\<rparr>
   \<and> map_of (flags (parseArgs [''node'', ''cli.js'', ''create'', ''--url'', ''u'', ''--event'',
                                 ''--url''])) ''url'' \<noteq> Some (FBool True)
   \<and> parseArgs [''node'', ''cli.js'', ''--url''] =
     \<lparr>envFile = None, command = Some ''--url'', params = [], flags = []\<rparr>
   \<and> parseArgs [''node'', ''cli.js'', ''create'', ''--env'', ''--url''] =
     \<lparr>envFile = None, command = Some ''create'', params = [], flags = []\<rparr>"
  by (simp add: parseArgs_def command_flags.simps(2) assign_def push_flag_def ensureArray_def)

text \<open>
  C10, amended. When the last token is \<open>--url\<close>, \<open>--event\<close>, \<open>-e\<close>, \<open>--header\<close> or \<open>-H\<close>
  and the second loop reaches it as a token of its own (it comes after the command, no
  \<open>--help\<close> or \<open>-h\<close> is present, and the tokens between the command and it leave no
  \<open>--env\<close> and no value-taking flag waiting for its value), no value follows it and the
  token is stored as a boolean flag: its name without the leading dashes is set to
  \<open>true\<close>, in the flags the loop has built from the tokens before it. So a final \<open>--url\<close>
  reached in this way replaces an earlier string under \<open>url\<close>, and a final \<open>-e\<close> reached in
  this way sets the key \<open>e\<close> and leaves the array under \<open>event\<close> as it was.
\<close>

theorem trailing_value_flag_is_boolean:
  "(value_flag a \<longrightarrow>
      command_flags [a] fl ps = (AList.update (replace_leading_dashes a) (FBool True) fl, ps))
   \<and> (value_flag a \<longrightarrow> complete_tokens ts \<longrightarrow>
      command_flags (ts @ [a]) fl ps =
        (AList.update (replace_leading_dashes a) (FBool True) (fst (command_flags ts fl ps)),
         snd (command_flags ts fl ps)))
   \<and> (value_flag a \<longrightarrow> complete_tokens ts \<longrightarrow> c \<noteq> ''--env'' \<longrightarrow>
      ''--help'' \<notin> set (env_tokens vs @ c # ts) \<longrightarrow> ''-h'' \<notin> set (env_tokens vs @ c # ts) \<longrightarrow>
      parseArgs (n # s # env_tokens vs @ c # ts @ [a]) =
        \<lparr>envFile = (if vs = [] then None else Some (last vs)), command = Some c,
         params = snd (command_flags ts [] []),
         flags = AList.update (replace_leading_dashes a) (FBool True)
                   (fst (command_flags ts [] []))\<rparr>)
   \<and> replace_leading_dashes ''--url'' = ''url''
   \<and> replace_leading_dashes ''--event'' = ''event''
   \<and> replace_leading_dashes ''-e'' = ''e''
   \<and> replace_leading_dashes ''--header'' = ''header''
   \<and> replace_leading_dashes ''-H'' = ''H''
   \<and> map_of (AList.update ''url'' (FBool True) fl) ''url'' = Some (FBool True)
   \<and> map_of (AList.update ''e'' (FBool True) fl) ''event'' = map_of fl ''event''"
proof (intro conjI impI)
  assume "value_flag a"
  then show "command_flags [a] fl ps =
      (AList.update (replace_leading_dashes a) (FBool True) fl, ps)"
    by (rule command_flags_trailing)
next
  assume a: "value_flag a" and ts: "complete_tokens ts"
  show "command_flags (ts @ [a]) fl ps =
        (AList.update (replace_leading_dashes a) (FBool True) (fst (command_flags ts fl ps)),
         snd (command_flags ts fl ps))"
    using command_flags_append [OF ts, of "[a]" fl ps] command_flags_trailing [OF a]
    by simp
next
  assume a: "value_flag a" and ts: "complete_tokens ts" and c: "c \<noteq> ''--env''"
    and h1: "''--help'' \<notin> set (env_tokens vs @ c # ts)"
    and h2: "''-h'' \<notin> set (env_tokens vs @ c # ts)"
  from a have "a \<noteq> ''--help''" and "a \<noteq> ''-h''"
    by (auto simp add: value_flag_def)
  with h1 h2 have h3: "''--help'' \<notin> set (env_tokens vs @ c # ts @ [a])"
    and h4: "''-h'' \<notin> set (env_tokens vs @ c # ts @ [a])"
    by auto
  show "parseArgs (n # s # env_tokens vs @ c # ts @ [a]) =
        \<lparr>envFile = (if vs = [] then None else Some (last vs)), command = Some c,
         params = snd (command_flags ts [] []),
         flags = AList.update (replace_leading_dashes a) (FBool True)
                   (fst (command_flags ts [] []))\<rparr>"
    using parseArgs_command [OF c h3 h4, of n s]
      command_flags_append [OF ts, of "[a]" "[]" "[]"] command_flags_trailing [OF a]
    by simp
qed (simp_all add: replace_leading_dashes_def update_conv')

theorem trailing_value_flag_is_boolean_witness:
  "parseArgs [''node'', ''cli.js'', ''create'', ''--url'', ''https://e/x'', ''--url''] =
     \<lparr>envFile = None, command = Some ''create'', params = [], flags = [(''url'', FBool True)]\<rparr>
   \<and> parseArgs [''node'', ''cli.js'', ''create'', ''--event'', ''a:created'', ''-e''] =
     \<lparr>envFile = None, command = Some ''create'', params = [],
      flags = [(''event'', FArr [''a:created'']), (''e'', FBool True)]\<rparr>"
proof -
  have ts: "complete_tokens [''--url'', ''https://e/x'']" "complete_tokens [''--event'', ''a:created'']"
    by (simp_all add: value_flag_def)
  have run: "command_flags [''--url'', ''https://e/x''] [] [] = ([(''url'', FStr ''https://e/x'')], [])"
    "command_flags [''--event'', ''a:created''] [] [] = ([(''event'', FArr [''a:created''])], [])"
    by (simp_all add: command_flags.simps(2) assign_def push_flag_def ensureArray_def)
  have vf: "value_flag ''--url''" "value_flag ''-e''"
    by (simp_all add: value_flag_def)
  show ?thesis
    using trailing_value_flag_is_boolean [where a = "''--url''" and ts = "[''--url'', ''https://e/x'']"
        and c = "''create''" and vs = "[]" and n = "''node''" and s = "''cli.js''"]
      trailing_value_flag_is_boolean [where a = "''-e''" and ts = "[''--event'', ''a:created'']"
        and c = "''create''" and vs = "[]" and n = "''node''" and s = "''cli.js''"]
      ts run vf
    by (simp add: env_tokens_def)
qed

section \<open>Properties of \<open>parseHeaders\<close>\<close>

lemma indexOf_first: "c \<notin> set pre \<Longrightarrow> indexOf (pre @ c # post) c = Some (length pre)"
  by (induction pre) auto

lemma indexOf_absent: "c \<notin> set v \<Longrightarrow> indexOf v c = None"
  by (induction v) auto

lemma loop_token:
  assumes "CHR ''='' \<notin> set p"
  shows "parseHeaders_loop ((p @ ''='' @ q) # vs) out =
           (if trim p = []
            then Inl (Error (''Invalid --header value: '' @ p @ ''='' @ q @ ''. Name is empty.''))
            else parseHeaders_loop vs (out @ [\<lparr>name = trim p, value' = trim q\<rparr>]))"
  using indexOf_first [OF assms, of q] by simp

lemma loop_valid:
  "list_all valid_pair pqs \<Longrightarrow>
   parseHeaders_loop (map header_token pqs @ vs) out =
     parseHeaders_loop vs (out @ map header_of pqs)"
proof (induction pqs arbitrary: out)
  case Nil
  then show ?case by simp
next
  case (Cons pq pqs)
  from Cons.prems have "valid_pair pq" and rest: "list_all valid_pair pqs"
    by simp_all
  then have "CHR ''='' \<notin> set (fst pq)" and "trim (fst pq) \<noteq> []"
    unfolding valid_pair_def by simp_all
  with rest show ?case
    using Cons.IH [of "out @ [header_of pq]"] loop_token [of "fst pq" "snd pq"]
    by (simp add: header_token_def header_of_def)
qed

lemma finish_valid:
  "list_all valid_pair pqs \<Longrightarrow>
   parseHeaders_loop (map header_token pqs) [] = Inr (map header_of pqs)"
  using loop_valid [of pqs "[]" "[]"] by simp

lemma loop_no_equals:
  "list_all valid_pair pqs \<Longrightarrow> CHR ''='' \<notin> set v \<Longrightarrow>
   parseHeaders_loop (map header_token pqs @ v # vs) [] =
     Inl (Error (''Invalid --header value: '' @ v @ ''. Expected key=value.''))"
  using loop_valid [of pqs "v # vs" "[]"] by (simp add: indexOf_absent)

lemma loop_empty_name:
  "list_all valid_pair pqs \<Longrightarrow> CHR ''='' \<notin> set p \<Longrightarrow> trim p = [] \<Longrightarrow>
   parseHeaders_loop (map header_token pqs @ (p @ ''='' @ q) # vs) [] =
     Inl (Error (''Invalid --header value: '' @ p @ ''='' @ q @ ''. Name is empty.''))"
  using loop_valid [of pqs "(p @ ''='' @ q) # vs" "[]"] loop_token [of p q vs]
  by simp

text \<open>
  C5. A token \<open>p=q\<close>, where \<open>p\<close> holds no \<open>=\<close> and is not blank, gives the header named
  \<open>p\<close> trimmed with the value \<open>q\<close> trimmed; a list of such tokens gives their headers in
  order. The first token without \<open>=\<close>, or with a blank part before its first \<open>=\<close>, makes
  the call fail with an error whose message quotes that token. For \<open>undefined\<close>, a boolean,
  the empty string and the empty array the result is \<open>undefined\<close>, not an empty array; a
  single non-empty string is parsed as the array holding it.
\<close>

theorem parseHeaders_tokens:
  "(list_all valid_pair pqs \<longrightarrow>
      parseHeaders (Some (FArr (map header_token pqs))) =
        Inr (if pqs = [] then None else Some (map header_of pqs)))
   \<and> (list_all valid_pair pqs \<longrightarrow> CHR ''='' \<notin> set v \<longrightarrow>
      parseHeaders (Some (FArr (map header_token pqs @ v # vs))) =
        Inl (Error (''Invalid --header value: '' @ v @ ''. Expected key=value.'')))
   \<and> (list_all valid_pair pqs \<longrightarrow> CHR ''='' \<notin> set p \<longrightarrow> trim p = [] \<longrightarrow>
      parseHeaders (Some (FArr (map header_token pqs @ (p @ ''='' @ q) # vs))) =
        Inl (Error (''Invalid --header value: '' @ p @ ''='' @ q @ ''. Name is empty.'')))
   \<and> (s \<noteq> [] \<longrightarrow> parseHeaders (Some (FStr s)) = parseHeaders (Some (FArr [s])))
   \<and> parseHeaders None = Inr None
   \<and> parseHeaders (Some (FBool b)) = Inr None
   \<and> parseHeaders (Some (FStr [])) = Inr None
   \<and> parseHeaders (Some (FArr [])) = Inr None"
proof (intro conjI impI)
  assume "list_all valid_pair pqs"
  then show "parseHeaders (Some (FArr (map header_token pqs))) =
        Inr (if pqs = [] then None else Some (map header_of pqs))"
    by (simp add: parseHeaders_def finish_valid)
next
  assume "list_all valid_pair pqs" and "CHR ''='' \<notin> set v"
  then show "parseHeaders (Some (FArr (map header_token pqs @ v # vs))) =
        Inl (Error (''Invalid --header value: '' @ v @ ''. Expected key=value.''))"
    using loop_no_equals [of pqs v vs] by (simp add: parseHeaders_def)
next
  assume "list_all valid_pair pqs" and "CHR ''='' \<notin> set p" and "trim p = []"
  then show "parseHeaders (Some (FArr (map header_token pqs @ (p @ ''='' @ q) # vs))) =
        Inl (Error (''Invalid --header value: '' @ p @ ''='' @ q @ ''. Name is empty.''))"
    using loop_empty_name [of pqs p q vs] by (simp add: parseHeaders_def)
qed (simp_all add: parseHeaders_def)

theorem parseHeaders_tokens_witness:
  "parseHeaders (Some (FArr [''x-api-key=secret''])) =
     Inr (Some [\<lparr>name = ''x-api-key'', value' = ''secret''\<rparr>])
   \<and> parseHeaders (Some (FArr ['' a = b=c '', ''badtoken'', ''k=v''])) =
     Inl (Error ''Invalid --header value: badtoken. Expected key=value.'')
   \<and> parseHeaders (Some (FArr [''a=b'', ''=value''])) =
     Inl (Error ''Invalid --header value: =value. Name is empty.'')
   \<and> parseHeaders (Some (FArr ['' a = b=c ''])) =
     Inr (Some [\<lparr>name = ''a'', value' = ''b=c''\<rparr>])
   \<and> parseHeaders (Some (FStr ''k=v'')) = parseHeaders (Some (FArr [''k=v'']))"
proof -
  have v: "list_all valid_pair [(''x-api-key'', ''secret'')]"
    "list_all valid_pair [('' a '', '' b=c '')]"
    "list_all valid_pair [(''a'', ''b'')]"
    by (simp_all add: valid_pair_def trim_def is_space_def)
  show ?thesis
    using parseHeaders_tokens [of "[(''x-api-key'', ''secret'')]" "''badtoken''" "[''k=v'']"
        "''''" "''value''" "''k=v''"]
      parseHeaders_tokens [of "[('' a '', '' b=c '')]" "''badtoken''" "[''k=v'']"
        "''''" "''value''" "''k=v''"]
      parseHeaders_tokens [of "[(''a'', ''b'')]" "''badtoken''" "[]" "''''" "''value''" "''k=v''"]
      v
    by (simp add: header_token_def header_of_def trim_def is_space_def)
qed

section \<open>Properties of the client\<close>

subsection \<open>Normalization\<close>

lemma spread_fold_lookup:
  "distinct (map fst kvs) \<Longrightarrow>
   map_of (foldl (\<lambda>acc kv. AList.update (fst kv) (snd kv) acc) obj kvs) = map_of obj ++ map_of kvs"
proof (induction kvs arbitrary: obj)
  case Nil
  then show ?case by simp
next
  case (Cons kv kvs)
  from Cons.prems have fresh: "fst kv \<notin> fst ` set kvs" and d: "distinct (map fst kvs)"
    by simp_all
  from fresh have none: "map_of kvs (fst kv) = None"
    by (simp add: map_of_eq_None_iff)
  have "map_of (foldl (\<lambda>acc kv. AList.update (fst kv) (snd kv) acc) obj (kv # kvs)) =
          (map_of obj)(fst kv \<mapsto> snd kv) ++ map_of kvs"
    using Cons.IH [OF d, of "AList.update (fst kv) (snd kv) obj"]
    by (simp add: update_conv' fun_upd_def)
  also have "\<dots> = map_of obj ++ map_of (kv # kvs)"
    using none by (cases kv) (auto simp add: fun_eq_iff map_add_def split: option.splits)
  finally show ?case .
qed

lemma spread_fold_distinct:
  "distinct (map fst obj) \<Longrightarrow>
   distinct (map fst (foldl (\<lambda>acc kv. AList.update (fst kv) (snd kv) acc) obj kvs))"
  by (induction kvs arbitrary: obj) (simp_all add: distinct_update)

lemma coalesce_chain:
  "coalesce (coalesce (coalesce Undefined a) b) c =
     (case filter (\<lambda>v. \<not> nullish v) [a, b, c] of v # _ \<Rightarrow> v | [] \<Rightarrow> c)"
  by (simp add: coalesce_def)

lemma normalizeWebhook_props:
  "own_props (normalizeWebhook (Obj kvs)) =
     foldl (\<lambda>acc kv. AList.update (fst kv) (snd kv) acc)
       [(''id'',
         coalesce (coalesce (coalesce (opt_get (Obj kvs) ''id'') (opt_get (Obj kvs) ''_id''))
                     (opt_get (Obj kvs) ''webhookId''))
           (opt_get (Obj kvs) ''uuid''))] kvs"
  by (simp add: normalizeWebhook_def spread_def Let_def)

lemma normalizeWebhook_lookup:
  assumes "distinct (map fst kvs)"
  shows "map_of (own_props (normalizeWebhook (Obj kvs))) k =
           (if k = ''id'' then Some (resolved_id kvs) else map_of kvs k)"
proof (cases "map_of kvs ''id''")
  case None
  then have "opt_get (Obj kvs) ''id'' = Undefined" by simp
  then show ?thesis
    using None spread_fold_lookup [OF assms] coalesce_chain
    by (simp add: normalizeWebhook_props resolved_id_def map_add_def split: option.splits)
next
  case (Some v)
  then show ?thesis
    using spread_fold_lookup [OF assms]
    by (simp add: normalizeWebhook_props resolved_id_def map_add_def split: option.splits)
qed

text \<open>
  C1, as the claim states it, fails. The object \<open>{"_id": null, "uuid": "u-1"}\<close> has the
  field \<open>_id\<close>, so the value of its highest-priority present field is \<open>null\<close>, and it is
  normalized to an object whose \<open>id\<close> is \<open>"u-1"\<close>. Reading "present" as "not null" does
  not save the claim: \<open>{"id": null, "_id": "x"}\<close> is normalized to an object whose \<open>id\<close>
  is \<open>null\<close>, not \<open>"x"\<close>, because the object's own \<open>id\<close> is copied over the computed one.
\<close>

theorem normalizeWebhook_null_field_counterexample:
  "normalizeWebhook (Obj [(''_id'', Null), (''uuid'', Str ''u-1'')]) =
     Obj [(''id'', Str ''u-1''), (''_id'', Null), (''uuid'', Str ''u-1'')]
   \<and> first_present [(''_id'', Null), (''uuid'', Str ''u-1'')] = Null
   \<and> opt_get (normalizeWebhook (Obj [(''_id'', Null), (''uuid'', Str ''u-1'')])) ''id'' \<noteq>
       first_present [(''_id'', Null), (''uuid'', Str ''u-1'')]
   \<and> normalizeWebhook (Obj [(''id'', Null), (''_id'', Str ''x'')]) =
       Obj [(''id'', Null), (''_id'', Str ''x'')]
   \<and> first_populated [(''id'', Null), (''_id'', Str ''x'')] = Str ''x''
   \<and> opt_get (normalizeWebhook (Obj [(''id'', Null), (''_id'', Str ''x'')])) ''id'' \<noteq>
       first_populated [(''id'', Null), (''_id'', Str ''x'')]"
  by (simp add: normalizeWebhook_def spread_def coalesce_def first_present_def first_populated_def)

text \<open>
  C1, amended. Normalizing an object gives an object with distinct keys in which every key
  other than \<open>id\<close> has the value it had, or is absent as it was, and \<open>id\<close> holds: the
  object's own \<open>id\<close> when it has that field, whatever its value; otherwise the first
  value of \<open>_id\<close>, \<open>webhookId\<close>, \<open>uuid\<close> that is neither \<open>null\<close> nor \<open>undefined\<close>; and
  without such a value whatever \<open>uuid\<close> holds, \<open>undefined\<close> when it is absent. When none
  of \<open>_id\<close>, \<open>webhookId\<close>, \<open>uuid\<close> holds \<open>null\<close> or \<open>undefined\<close>, that is the value of
  the first of the four fields that is present.
\<close>

theorem normalizeWebhook_object:
  assumes "distinct (map fst kvs)"
  shows "normalizeWebhook (Obj kvs) = Obj (own_props (normalizeWebhook (Obj kvs)))
    \<and> distinct (map fst (own_props (normalizeWebhook (Obj kvs))))
    \<and> map_of (own_props (normalizeWebhook (Obj kvs))) ''id'' = Some (resolved_id kvs)
    \<and> (k \<noteq> ''id'' \<longrightarrow> map_of (own_props (normalizeWebhook (Obj kvs))) k = map_of kvs k)
    \<and> (map_of kvs k = Some v \<longrightarrow> map_of (own_props (normalizeWebhook (Obj kvs))) k = Some v)
    \<and> (list_all (\<lambda>f. \<not> nullish (opt_get (Obj kvs) f) \<or> map_of kvs f = None)
          [''_id'', ''webhookId'', ''uuid''] \<longrightarrow>
        resolved_id kvs = first_present kvs)"
proof (intro conjI impI)
  show "normalizeWebhook (Obj kvs) = Obj (own_props (normalizeWebhook (Obj kvs)))"
    by (simp add: normalizeWebhook_def Let_def)
next
  show "distinct (map fst (own_props (normalizeWebhook (Obj kvs))))"
    by (simp add: normalizeWebhook_props spread_fold_distinct)
next
  show "map_of (own_props (normalizeWebhook (Obj kvs))) ''id'' = Some (resolved_id kvs)"
    by (simp add: normalizeWebhook_lookup [OF assms])
next
  assume "k \<noteq> ''id''"
  then show "map_of (own_props (normalizeWebhook (Obj kvs))) k = map_of kvs k"
    by (simp add: normalizeWebhook_lookup [OF assms])
next
  assume "map_of kvs k = Some v"
  then show "map_of (own_props (normalizeWebhook (Obj kvs))) k = Some v"
    by (cases "k = ''id''") (simp_all add: normalizeWebhook_lookup [OF assms] resolved_id_def)
next
  assume "list_all (\<lambda>f. \<not> nullish (opt_get (Obj kvs) f) \<or> map_of kvs f = None)
            [''_id'', ''webhookId'', ''uuid'']"
  then show "resolved_id kvs = first_present kvs"
    by (auto simp add: resolved_id_def first_present_def split: option.splits)
qed

theorem normalizeWebhook_object_witness:
  "map_of (own_props (normalizeWebhook
       (Obj [(''webhookId'', Str ''w-7''), (''url'', Str ''https://e/x''), (''vendor'', Num 3)])))
     ''id'' = Some (Str ''w-7'')
   \<and> map_of (own_props (normalizeWebhook
       (Obj [(''webhookId'', Str ''w-7''), (''url'', Str ''https://e/x''), (''vendor'', Num 3)])))
     ''vendor'' = Some (Num 3)
   \<and> resolved_id [(''webhookId'', Str ''w-7''), (''url'', Str ''https://e/x''), (''vendor'', Num 3)] =
       first_present [(''webhookId'', Str ''w-7''), (''url'', Str ''https://e/x''), (''vendor'', Num 3)]
   \<and> normalizeWebhook (Obj [(''_id'', Str ''x''), (''id'', Null)]) =
       Obj [(''id'', Null), (''_id'', Str ''x'')]"
proof -
  have d: "distinct (map fst [(''webhookId'', Str ''w-7''), (''url'', Str ''https://e/x''),
                              (''vendor'', Num (3::rat))])"
    by simp
  have e: "normalizeWebhook (Obj [(''_id'', Str ''x''), (''id'', Null)]) =
       Obj [(''id'', Null), (''_id'', Str ''x'')]"
    by (simp add: normalizeWebhook_def spread_def coalesce_def)
  show ?thesis
    using normalizeWebhook_object [OF d, of "''vendor''" "Num 3"] e
    by (simp add: resolved_id_def)
qed

subsection \<open>Requests and outcomes\<close>

lemma requested_urls_append:
  "requested_urls (xs @ ys) = requested_urls xs @ requested_urls ys"
  by (induction xs rule: requested_urls.induct) simp_all

lemma getAccessToken_result:
  "getAccessToken rt c =
     ([Fetched (token_request c)],
      case fetch rt (token_request c) of
        None \<Rightarrow> Inl TypeError
      | Some res \<Rightarrow>
          if \<not> ok res then Inl (Error (failure ''Failed to fetch access token: '' res))
          else
            (case res_json res of
               Inl msg \<Rightarrow> Inl (SyntaxError msg)
             | Inr data \<Rightarrow>
                 if \<not> truthy (opt_get data ''access_token'')
                 then Inl (Error ''No access_token in OAuth response'')
                 else Inr (opt_get data ''access_token'')))"
  by (simp add: getAccessToken_def io_bind_def await_fetch_def io_throw_def io_return_def
      split: option.splits sum.splits)

lemma authHeaders_result:
  "authHeaders rt c =
     (case snd (getAccessToken rt c) of
        Inl e \<Rightarrow> ([Fetched (token_request c)], Inl e)
      | Inr token \<Rightarrow>
          ([Fetched (token_request c), Logged token],
           Inr [(''Authorization'', ''Bearer '' @ template rt token)]))"
  by (simp add: authHeaders_def io_bind_def getAccessToken_result split: sum.splits)

lemma authHeaders_urls:
  "requested_urls (fst (authHeaders rt c)) = [authEndpoint (oauth c)]"
  by (simp add: authHeaders_result token_request_def split: sum.splits)

lemma authHeaders_failed:
  "snd (authHeaders rt c) = Inl e \<Longrightarrow> authHeaders rt c = (fst (authHeaders rt c), Inl e)"
  by (cases "authHeaders rt c") simp

text \<open>What an operation does once the headers are there: one request, then the handler.\<close>

lemma bind_fetch:
  "io_bind (tr, Inr hs) (\<lambda>headers. io_bind (await_fetch rt (R headers)) K) =
     (case fetch rt (R hs) of
        None \<Rightarrow> (tr @ [Fetched (R hs)], Inl TypeError)
      | Some res \<Rightarrow> (tr @ [Fetched (R hs)] @ fst (K res), snd (K res)))"
  by (simp add: io_bind_def await_fetch_def case_prod_beta split: option.splits sum.splits)

lemma bind_failed:
  "io_bind (tr, Inl e) (\<lambda>headers. io_bind (await_fetch rt (R headers)) K) = (tr, Inl e)"
  by (simp add: io_bind_def)

lemma api_request_not_token:
  assumes "b \<noteq> req_body (token_request c)"
  shows "api_request c m path hs b \<noteq> token_request c"
proof
  assume "api_request c m path hs b = token_request c"
  then have "req_body (api_request c m path hs b) = req_body (token_request c)"
    by simp
  with assms show False
    by (simp add: api_request_def)
qed

lemma token_body: "req_body (token_request c) \<noteq> NoBody" "req_body (token_request c) \<noteq> JsonBody v"
  by (simp_all add: token_request_def)

subsection \<open>Messages\<close>

lemma str_includes_infix: "str_includes (pre @ n @ post) n"
proof (induction pre)
  case Nil
  have "take (length n) (n @ post) = n" by simp
  then show ?case by (cases "n @ post") auto
next
  case (Cons c pre)
  then show ?case by simp
qed

lemma failure_carries_status: "carries_status res (Inl (Error (failure what res)))"
proof -
  have "str_includes (failure what res) (show_nat (res_status res))"
    using str_includes_infix [of what "show_nat (res_status res)"
        "'' '' @ res_statusText res @ '' '' @ text_or_empty res"]
    by (simp add: failure_def)
  moreover have "str_includes (failure what res) (res_statusText res)"
    using str_includes_infix [of "what @ show_nat (res_status res) @ '' ''" "res_statusText res"
        "'' '' @ text_or_empty res"]
    by (simp add: failure_def)
  moreover have "str_includes (failure what res) (text_or_empty res)"
    using str_includes_infix [of "what @ show_nat (res_status res) @ '' '' @ res_statusText res @ '' ''"
        "text_or_empty res" "[]"]
    by (simp add: failure_def)
  ultimately show ?thesis
    by (simp add: carries_status_def shows_response_def)
qed

subsection \<open>Token acquisition\<close>

text \<open>
  C3, as the claim states it, fails twice. A 200 response whose JSON body is \<open>{}\<close> makes
  \<open>getAccessToken\<close> fail with the fixed message \<open>No access_token in OAuth response\<close>, which
  shows neither the status nor the status text nor the body. And a 200 response whose
  \<open>access_token\<close> is the number 7, not a string, makes it succeed and return that number.
\<close>

theorem getAccessToken_counterexample:
  "snd (getAccessToken (example_runtime (ok_response ''{}'' (Obj [])) token_response) example_config) =
     Inl (Error ''No access_token in OAuth response'')
   \<and> \<not> carries_status (ok_response ''{}'' (Obj []))
         (snd (getAccessToken (example_runtime (ok_response ''{}'' (Obj [])) token_response)
                 example_config))
   \<and> snd (getAccessToken
            (example_runtime (ok_response ''{access_token:7}'' (Obj [(''access_token'', Num 7)]))
               token_response)
            example_config) = Inr (Num 7)"
  by (simp add: getAccessToken_result example_runtime_def example_config_def token_request_def
      ok_response_def ok_def carries_status_def shows_response_def show_nat.simps digit_def)

text \<open>
  C3, amended. \<open>getAccessToken\<close> succeeds exactly when the token endpoint answers with a
  status from 200 to 299 and a JSON body whose \<open>access_token\<close> is truthy (a non-empty
  string, but also a non-zero number, \<open>true\<close>, an array or an object), and it returns that
  value. A status outside 200 to 299 fails with the error \<open>Failed to fetch access token:\<close>
  followed by the status, the status text and the body text. A 2xx body that is not JSON
  fails with the \<open>SyntaxError\<close> of the JSON parser, passed on with the parser's message as
  it is: the program adds nothing to it. A 2xx JSON body whose \<open>access_token\<close> is missing
  or falsy fails with the message \<open>No access_token in OAuth response\<close>, the same for every
  status, status text and body. Without a response the call fails with the error of
  \<open>fetch\<close>.
\<close>

theorem getAccessToken_outcomes:
  "(fetch rt (token_request c) = Some res \<longrightarrow> ok res \<longrightarrow> res_json res = Inr data \<longrightarrow>
      truthy (opt_get data ''access_token'') \<longrightarrow>
      snd (getAccessToken rt c) = Inr (opt_get data ''access_token''))
   \<and> (fetch rt (token_request c) = Some res \<longrightarrow> \<not> ok res \<longrightarrow>
      snd (getAccessToken rt c) =
        Inl (Error (''Failed to fetch access token: '' @ show_nat (res_status res) @ '' '' @
                    res_statusText res @ '' '' @ text_or_empty res))
      \<and> carries_status res (snd (getAccessToken rt c)))
   \<and> (fetch rt (token_request c) = Some res \<longrightarrow> ok res \<longrightarrow> res_json res = Inl msg \<longrightarrow>
      snd (getAccessToken rt c) = Inl (SyntaxError msg))
   \<and> (fetch rt (token_request c) = Some res \<longrightarrow> ok res \<longrightarrow> res_json res = Inr data \<longrightarrow>
      \<not> truthy (opt_get data ''access_token'') \<longrightarrow>
      snd (getAccessToken rt c) = Inl (Error ''No access_token in OAuth response''))
   \<and> (fetch rt (token_request c) = None \<longrightarrow> snd (getAccessToken rt c) = Inl TypeError)
   \<and> ((\<exists>token. snd (getAccessToken rt c) = Inr token) \<longleftrightarrow>
       (\<exists>r d. fetch rt (token_request c) = Some r \<and> ok r \<and> res_json r = Inr d \<and>
              truthy (opt_get d ''access_token'')))"
proof (intro conjI impI)
  assume "fetch rt (token_request c) = Some res" and "\<not> ok res"
  then have "snd (getAccessToken rt c) = Inl (Error (failure ''Failed to fetch access token: '' res))"
    by (simp add: getAccessToken_result)
  then show "carries_status res (snd (getAccessToken rt c))"
    by (simp add: failure_carries_status)
next
  show "(\<exists>token. snd (getAccessToken rt c) = Inr token) \<longleftrightarrow>
       (\<exists>r d. fetch rt (token_request c) = Some r \<and> ok r \<and> res_json r = Inr d \<and>
              truthy (opt_get d ''access_token''))"
    by (auto simp add: getAccessToken_result split: option.splits sum.splits if_splits)
qed (simp_all add: getAccessToken_result failure_def)

theorem getAccessToken_outcomes_witness:
  "snd (getAccessToken (example_runtime token_response token_response) example_config) =
     Inr (Str ''t0k'')
   \<and> snd (getAccessToken
            (example_runtime
               \<lparr>res_status = 401, res_statusText = ''Unauthorized'', res_text = Some ''denied'',
                res_json = Inl ''Unexpected token''\<rparr>
               token_response)
            example_config) =
       Inl (Error ''Failed to fetch access token: 401 Unauthorized denied'')
   \<and> snd (getAccessToken
            (example_runtime
               \<lparr>res_status = 200, res_statusText = ''OK'', res_text = Some ''<html>'',
                res_json = Inl ''Unexpected token <, <html> is not valid JSON''\<rparr>
               token_response)
            example_config) =
       Inl (SyntaxError ''Unexpected token <, <html> is not valid JSON'')
   \<and> snd (getAccessToken (example_runtime (ok_response ''{}'' (Obj [(''access_token'', Str [])]))
            token_response) example_config) =
       Inl (Error ''No access_token in OAuth response'')"
proof -
  have r: "fetch (example_runtime a b) (token_request example_config) = Some a" for a b
    by (simp add: example_runtime_def)
  have "snd (getAccessToken (example_runtime token_response token_response) example_config) =
     Inr (Str ''t0k'')"
    using r [of token_response token_response]
      getAccessToken_outcomes [where rt = "example_runtime token_response token_response"
        and c = example_config and res = token_response
        and data = "Obj [(''access_token'', Str ''t0k'')]"]
    by (simp add: token_response_def ok_response_def ok_def)
  moreover have "snd (getAccessToken
            (example_runtime
               \<lparr>res_status = 401, res_statusText = ''Unauthorized'', res_text = Some ''denied'',
                res_json = Inl ''Unexpected token''\<rparr>
               token_response)
            example_config) =
       Inl (Error ''Failed to fetch access token: 401 Unauthorized denied'')"
    using r [of "\<lparr>res_status = 401, res_statusText = ''Unauthorized'', res_text = Some ''denied'',
                res_json = Inl ''Unexpected token''\<rparr>" token_response]
      getAccessToken_outcomes [where rt = "example_runtime
               \<lparr>res_status = 401, res_statusText = ''Unauthorized'', res_text = Some ''denied'',
                res_json = Inl ''Unexpected token''\<rparr> token_response"
        and c = example_config
        and res = "\<lparr>res_status = 401, res_statusText = ''Unauthorized'', res_text = Some ''denied'',
                res_json = Inl ''Unexpected token''\<rparr>"]
    by (simp add: ok_def text_or_empty_def show_nat.simps digit_def)
  moreover have "snd (getAccessToken
            (example_runtime
               \<lparr>res_status = 200, res_statusText = ''OK'', res_text = Some ''<html>'',
                res_json = Inl ''Unexpected token <, <html> is not valid JSON''\<rparr>
               token_response)
            example_config) =
       Inl (SyntaxError ''Unexpected token <, <html> is not valid JSON'')"
    using r [of "\<lparr>res_status = 200, res_statusText = ''OK'', res_text = Some ''<html>'',
                res_json = Inl ''Unexpected token <, <html> is not valid JSON''\<rparr>" token_response]
      getAccessToken_outcomes [where rt = "example_runtime
               \<lparr>res_status = 200, res_statusText = ''OK'', res_text = Some ''<html>'',
                res_json = Inl ''Unexpected token <, <html> is not valid JSON''\<rparr> token_response"
        and c = example_config
        and res = "\<lparr>res_status = 200, res_statusText = ''OK'', res_text = Some ''<html>'',
                res_json = Inl ''Unexpected token <, <html> is not valid JSON''\<rparr>"
        and msg = "''Unexpected token <, <html> is not valid JSON''"]
    by (simp add: ok_def)
  moreover have "snd (getAccessToken (example_runtime (ok_response ''{}'' (Obj [(''access_token'', Str [])]))
            token_response) example_config) =
       Inl (Error ''No access_token in OAuth response'')"
    using r [of "ok_response ''{}'' (Obj [(''access_token'', Str [])])" token_response]
      getAccessToken_outcomes [where rt = "example_runtime (ok_response ''{}'' (Obj [(''access_token'', Str [])]))
            token_response" and c = example_config
        and res = "ok_response ''{}'' (Obj [(''access_token'', Str [])])"
        and data = "Obj [(''access_token'', Str [])]"]
    by (simp add: ok_response_def ok_def)
  ultimately show ?thesis by simp
qed

subsection \<open>The public operations\<close>

lemma createWebhook_after_auth:
  "authHeaders rt c = (tr, Inr hs) \<Longrightarrow>
   fetch rt (api_request c ''POST'' ''/webhooks'' (hs @ [(''Content-Type'', ''application/json'')])
              (JsonBody (Obj (spread [(''_kind'', Str ''Webhook'')] (Obj req))))) = Some res \<Longrightarrow>
   snd (createWebhook rt c req) =
     (if \<not> ok res then Inl (Error (failure ''Create webhook failed: '' res))
      else snd (normalized_json res))"
  by (simp add: createWebhook_def bind_fetch io_throw_def)

lemma listWebhooks_after_auth:
  "authHeaders rt c = (tr, Inr hs) \<Longrightarrow>
   fetch rt (api_request c ''GET'' ''/webhooks'' hs NoBody) = Some res \<Longrightarrow>
   snd (listWebhooks rt c) =
     (if \<not> ok res then Inl (Error (failure ''List webhooks failed: '' res))
      else (case res_json res of
              Inl msg \<Rightarrow> Inl (SyntaxError msg)
            | Inr data \<Rightarrow> Inr (map normalizeWebhook (list_items data))))"
  by (simp add: listWebhooks_def bind_fetch io_throw_def io_return_def split: sum.splits)

lemma enableWebhook_after_auth:
  "authHeaders rt c = (tr, Inr hs) \<Longrightarrow>
   fetch rt (api_request c ''POST'' (''/webhooks/'' @ encodeURIComponent wid @ ''/enable'')
              hs NoBody) = Some res \<Longrightarrow>
   snd (enableWebhook rt c wid) =
     (if \<not> ok res then Inl (Error (failure ''Enable webhook failed: '' res))
      else snd (normalized_json res))"
  by (simp add: enableWebhook_def bind_fetch io_throw_def)

lemma disableWebhook_after_auth:
  "authHeaders rt c = (tr, Inr hs) \<Longrightarrow>
   fetch rt (api_request c ''POST'' (''/webhooks/'' @ encodeURIComponent wid @ ''/disable'')
              hs NoBody) = Some res \<Longrightarrow>
   snd (disableWebhook rt c wid) =
     (if \<not> ok res then Inl (Error (failure ''Disable webhook failed: '' res))
      else snd (normalized_json res))"
  by (simp add: disableWebhook_def bind_fetch io_throw_def)

lemma deleteWebhook_after_auth:
  "authHeaders rt c = (tr, Inr hs) \<Longrightarrow>
   fetch rt (api_request c ''DELETE'' (''/webhooks/'' @ encodeURIComponent wid) hs NoBody) =
     Some res \<Longrightarrow>
   snd (deleteWebhook rt c wid) =
     (if \<not> ok res then Inl (Error (failure ''Delete webhook failed: '' res)) else Inr ())"
  by (simp add: deleteWebhook_def bind_fetch io_throw_def io_return_def)

lemma token_request_constructor: "token_request (constructor config) = token_request config"
  by (simp add: token_request_def constructor_def)

lemma example_auth:
  "authHeaders (example_runtime token_response api_res) (constructor example_config) =
     ([Fetched (token_request (constructor example_config)), Logged (Str ''t0k'')],
      Inr [(''Authorization'', ''Bearer t0k'')])"
  by (simp add: authHeaders_result getAccessToken_result token_request_constructor
      example_runtime_def token_response_def ok_response_def ok_def template_def)

lemma example_other:
  "\<forall>r. r \<noteq> token_request (constructor example_config) \<longrightarrow>
     fetch (example_runtime token_response api_res) r = Some api_res"
  by (simp add: example_runtime_def token_request_constructor)

text \<open>
  C4. Once the token is there, a response of the webhook endpoint whose status is outside
  200 to 299 makes each of the five operations fail with an error whose message is the
  name of the operation followed by \<open>failed:\<close>, the status in decimal, the status text and
  the body text; the outcome is that error and no normalized webhook.
\<close>

theorem non_2xx_request_error:
  assumes "authHeaders rt c = (tr, Inr hs)"
    and "\<forall>r. r \<noteq> token_request c \<longrightarrow> fetch rt r = Some res"
    and "\<not> ok res"
  shows "snd (createWebhook rt c req) =
           Inl (Error (''Create webhook failed: '' @ show_nat (res_status res) @ '' '' @
                       res_statusText res @ '' '' @ text_or_empty res))
    \<and> snd (listWebhooks rt c) =
           Inl (Error (''List webhooks failed: '' @ show_nat (res_status res) @ '' '' @
                       res_statusText res @ '' '' @ text_or_empty res))
    \<and> snd (enableWebhook rt c wid) =
           Inl (Error (''Enable webhook failed: '' @ show_nat (res_status res) @ '' '' @
                       res_statusText res @ '' '' @ text_or_empty res))
    \<and> snd (disableWebhook rt c wid) =
           Inl (Error (''Disable webhook failed: '' @ show_nat (res_status res) @ '' '' @
                       res_statusText res @ '' '' @ text_or_empty res))
    \<and> snd (deleteWebhook rt c wid) =
           Inl (Error (''Delete webhook failed: '' @ show_nat (res_status res) @ '' '' @
                       res_statusText res @ '' '' @ text_or_empty res))
    \<and> carries_status res (snd (createWebhook rt c req))
    \<and> carries_status res (snd (listWebhooks rt c))
    \<and> carries_status res (snd (enableWebhook rt c wid))
    \<and> carries_status res (snd (disableWebhook rt c wid))
    \<and> carries_status res (snd (deleteWebhook rt c wid))"
proof -
  have api: "fetch rt (api_request c m path hs' b) = Some res"
    if "b \<noteq> req_body (token_request c)" for m path hs' b
    using assms(2) api_request_not_token [OF that] by simp
  have nb: "NoBody \<noteq> req_body (token_request c)" and jb: "JsonBody v \<noteq> req_body (token_request c)" for v
    using token_body [of c] by (simp_all add: token_request_def)
  have cr: "snd (createWebhook rt c req) = Inl (Error (failure ''Create webhook failed: '' res))"
    using createWebhook_after_auth [OF assms(1) api [OF jb]] assms(3) by simp
  have li: "snd (listWebhooks rt c) = Inl (Error (failure ''List webhooks failed: '' res))"
    using listWebhooks_after_auth [OF assms(1) api [OF nb]] assms(3) by simp
  have en: "snd (enableWebhook rt c wid) = Inl (Error (failure ''Enable webhook failed: '' res))"
    using enableWebhook_after_auth [OF assms(1) api [OF nb]] assms(3) by simp
  have di: "snd (disableWebhook rt c wid) = Inl (Error (failure ''Disable webhook failed: '' res))"
    using disableWebhook_after_auth [OF assms(1) api [OF nb]] assms(3) by simp
  have de: "snd (deleteWebhook rt c wid) = Inl (Error (failure ''Delete webhook failed: '' res))"
    using deleteWebhook_after_auth [OF assms(1) api [OF nb]] assms(3) by simp
  show ?thesis
    unfolding cr li en di de
    by (simp add: failure_carries_status) (simp add: failure_def)
qed

theorem non_2xx_request_error_witness:
  "snd (listWebhooks
          (example_runtime token_response
             \<lparr>res_status = 404, res_statusText = ''Not Found'', res_text = Some ''no such app'',
              res_json = Inl ''Unexpected token''\<rparr>)
          (constructor example_config)) =
     Inl (Error ''List webhooks failed: 404 Not Found no such app'')
   \<and> snd (deleteWebhook
          (example_runtime token_response
             \<lparr>res_status = 404, res_statusText = ''Not Found'', res_text = Some ''no such app'',
              res_json = Inl ''Unexpected token''\<rparr>)
          (constructor example_config) ''w-7'') =
     Inl (Error ''Delete webhook failed: 404 Not Found no such app'')
   \<and> snd (createWebhook
          (example_runtime token_response
             \<lparr>res_status = 500, res_statusText = ''Server Error'', res_text = None,
              res_json = Inr (Obj [(''id'', Str ''w-7'')])\<rparr>)
          (constructor example_config) [(''url'', Str ''https://e/x'')]) =
     Inl (Error ''Create webhook failed: 500 Server Error '')"
proof -
  have a: "\<not> ok \<lparr>res_status = 404, res_statusText = ''Not Found'', res_text = Some ''no such app'',
              res_json = Inl ''Unexpected token''\<rparr>"
    and b: "\<not> ok \<lparr>res_status = 500, res_statusText = ''Server Error'', res_text = None,
              res_json = Inr (Obj [(''id'', Str ''w-7'')])\<rparr>"
    by (simp_all add: ok_def)
  show ?thesis
    using non_2xx_request_error [OF example_auth example_other a, of "[]" "''w-7''"]
      non_2xx_request_error [OF example_auth example_other b, of "[(''url'', Str ''https://e/x'')]" "''w-7''"]
    by (simp add: text_or_empty_def show_nat.simps digit_def)
qed

subsection \<open>The shapes of a list response\<close>

lemma list_items_falsy: "\<not> truthy data \<Longrightarrow> list_items data = []"
  by (cases data) (simp_all add: list_items_def)

lemma list_items_primitive:
  "data = Bool True \<or> data = Num n \<and> n \<noteq> 0 \<or> data = Str s \<and> s \<noteq> [] \<Longrightarrow>
   list_items data = [data]"
  by (auto simp add: list_items_def)

lemma list_items_object:
  "list_items (Obj kvs) =
     (case map_of kvs ''items'' of Some (Arr ys) \<Rightarrow> ys | _ \<Rightarrow> [Obj kvs])"
  by (simp add: list_items_def split: option.splits jsval.splits)

text \<open>
  C2, as the claim states it, fails: the 2xx response whose JSON body is \<open>true\<close>, neither an
  array nor an object, makes \<open>listWebhooks\<close> return one entry, not the empty sequence.
\<close>

theorem listWebhooks_counterexample:
  "snd (listWebhooks (example_runtime token_response (ok_response ''true'' (Bool True)))
          (constructor example_config)) =
     Inr [Obj [(''id'', Undefined)]]
   \<and> snd (listWebhooks (example_runtime token_response (ok_response ''true'' (Bool True)))
          (constructor example_config)) \<noteq> Inr []"
proof -
  have "snd (listWebhooks (example_runtime token_response (ok_response ''true'' (Bool True)))
          (constructor example_config)) =
     Inr (map normalizeWebhook (list_items (Bool True)))"
    using listWebhooks_after_auth [OF example_auth, of "ok_response ''true'' (Bool True)"
        "ok_response ''true'' (Bool True)"]
      example_other [of "ok_response ''true'' (Bool True)"] api_request_not_token [of NoBody]
      token_body(1) [of "constructor example_config"]
    by (simp add: ok_response_def ok_def)
  then show ?thesis
    by (simp add: list_items_def normalizeWebhook_def spread_def coalesce_def)
qed

text \<open>
  C2, amended. For a 2xx response with a JSON body, \<open>listWebhooks\<close> returns: for an array,
  its elements normalized, as many and in the same order; for an object whose \<open>items\<close> is
  an array, the elements of that array normalized, in order; for any other object, that
  object normalized, alone; for any other truthy value (\<open>true\<close>, a number other than zero, a
  non-empty string) that value normalized, alone; and the empty sequence for the falsy
  values \<open>null\<close>, \<open>false\<close>, zero and the empty string.
\<close>

theorem listWebhooks_shapes:
  assumes "authHeaders rt c = (tr, Inr hs)"
    and "fetch rt (api_request c ''GET'' ''/webhooks'' hs NoBody) = Some res"
    and "ok res"
    and "res_json res = Inr data"
  shows "(data = Arr xs \<longrightarrow>
            snd (listWebhooks rt c) = Inr (map normalizeWebhook xs)
            \<and> (\<exists>ws. snd (listWebhooks rt c) = Inr ws \<and> length ws = length xs))
    \<and> (data = Obj kvs \<longrightarrow> map_of kvs ''items'' = Some (Arr ys) \<longrightarrow>
            snd (listWebhooks rt c) = Inr (map normalizeWebhook ys))
    \<and> (data = Obj kvs \<longrightarrow> (\<forall>zs. map_of kvs ''items'' \<noteq> Some (Arr zs)) \<longrightarrow>
            snd (listWebhooks rt c) = Inr [normalizeWebhook data])
    \<and> (data = Bool True \<or> data = Num n \<and> n \<noteq> 0 \<or> data = Str s \<and> s \<noteq> [] \<longrightarrow>
            snd (listWebhooks rt c) = Inr [normalizeWebhook data])
    \<and> (data = Null \<or> data = Bool False \<or> data = Num 0 \<or> data = Str [] \<longrightarrow>
            snd (listWebhooks rt c) = Inr [])"
proof -
  have run: "snd (listWebhooks rt c) = Inr (map normalizeWebhook (list_items data))"
    using listWebhooks_after_auth [OF assms(1,2)] assms(3,4) by simp
  show ?thesis
  proof (intro conjI impI)
    assume "data = Arr xs"
    then show "snd (listWebhooks rt c) = Inr (map normalizeWebhook xs)"
      using run by (simp add: list_items_def)
    then show "\<exists>ws. snd (listWebhooks rt c) = Inr ws \<and> length ws = length xs"
      by simp
  next
    assume "data = Obj kvs" and "map_of kvs ''items'' = Some (Arr ys)"
    then show "snd (listWebhooks rt c) = Inr (map normalizeWebhook ys)"
      using run by (simp add: list_items_object)
  next
    assume "data = Obj kvs" and "\<forall>zs. map_of kvs ''items'' \<noteq> Some (Arr zs)"
    then show "snd (listWebhooks rt c) = Inr [normalizeWebhook data]"
      using run by (simp add: list_items_object split: option.splits jsval.splits)
  next
    assume "data = Bool True \<or> data = Num n \<and> n \<noteq> 0 \<or> data = Str s \<and> s \<noteq> []"
    then show "snd (listWebhooks rt c) = Inr [normalizeWebhook data]"
      using run list_items_primitive [of data n s] by simp
  next
    assume "data = Null \<or> data = Bool False \<or> data = Num 0 \<or> data = Str []"
    then have "\<not> truthy data" by auto
    then show "snd (listWebhooks rt c) = Inr []"
      using run by (simp add: list_items_falsy)
  qed
qed

theorem listWebhooks_shapes_witness:
  "snd (listWebhooks
          (example_runtime token_response
             (ok_response ''[{_id:b},{id:a}]''
                (Arr [Obj [(''_id'', Str ''b'')], Obj [(''id'', Str ''a'')]])))
          (constructor example_config)) =
     Inr [Obj [(''id'', Str ''b''), (''_id'', Str ''b'')], Obj [(''id'', Str ''a'')]]
   \<and> snd (listWebhooks
          (example_runtime token_response
             (ok_response ''{items:[{uuid:u}]}'' (Obj [(''items'', Arr [Obj [(''uuid'', Str ''u'')]])])))
          (constructor example_config)) =
     Inr [Obj [(''id'', Str ''u''), (''uuid'', Str ''u'')]]
   \<and> snd (listWebhooks
          (example_runtime token_response (ok_response ''{id:a}'' (Obj [(''id'', Str ''a'')])))
          (constructor example_config)) =
     Inr [Obj [(''id'', Str ''a'')]]
   \<and> snd (listWebhooks (example_runtime token_response (ok_response ''null'' Null))
          (constructor example_config)) = Inr []"
proof -
  have api: "fetch (example_runtime token_response r)
               (api_request (constructor example_config) ''GET'' ''/webhooks''
                  [(''Authorization'', ''Bearer t0k'')] NoBody) = Some r" for r
    using example_other [of r] api_request_not_token [of NoBody] token_body(1) by metis
  have good: "ok (ok_response t d)" "res_json (ok_response t d) = Inr d" for t d
    by (simp_all add: ok_response_def ok_def)
  show ?thesis
    using listWebhooks_shapes [OF example_auth api [of "ok_response ''[{_id:b},{id:a}]'' (Arr [Obj [(''_id'', Str ''b'')], Obj [(''id'', Str ''a'')]])"]
        good(1) [of "''[{_id:b},{id:a}]''" "(Arr [Obj [(''_id'', Str ''b'')], Obj [(''id'', Str ''a'')]])"] good(2) [of "''[{_id:b},{id:a}]''" "(Arr [Obj [(''_id'', Str ''b'')], Obj [(''id'', Str ''a'')]])"],
        of "[Obj [(''_id'', Str ''b'')], Obj [(''id'', Str ''a'')]]" "[]" "[]" 0 "[]"]
      listWebhooks_shapes [OF example_auth api [of "ok_response ''{items:[{uuid:u}]}'' (Obj [(''items'', Arr [Obj [(''uuid'', Str ''u'')]])])"]
        good(1) [of "''{items:[{uuid:u}]}''" "(Obj [(''items'', Arr [Obj [(''uuid'', Str ''u'')]])])"] good(2) [of "''{items:[{uuid:u}]}''" "(Obj [(''items'', Arr [Obj [(''uuid'', Str ''u'')]])])"],
        of "[]" "[(''items'', Arr [Obj [(''uuid'', Str ''u'')]])]" "[Obj [(''uuid'', Str ''u'')]]" 0 "[]"]
      listWebhooks_shapes [OF example_auth api [of "ok_response ''{id:a}'' (Obj [(''id'', Str ''a'')])"]
        good(1) [of "''{id:a}''" "(Obj [(''id'', Str ''a'')])"] good(2) [of "''{id:a}''" "(Obj [(''id'', Str ''a'')])"],
        of "[]" "[(''id'', Str ''a'')]" "[]" 0 "[]"]
      listWebhooks_shapes [OF example_auth api [of "ok_response ''null'' Null"]
        good(1) [of "''null''" "Null"] good(2) [of "''null''" "Null"],
        of "[]" "[]" "[]" 0 "[]"]
    by (simp add: normalizeWebhook_def spread_def coalesce_def)
qed

subsection \<open>Request paths\<close>

lemma replace_trailing_slash_one: "replace_trailing_slash (b @ ''/'') = b"
  by (simp add: replace_trailing_slash_def)

lemma replace_trailing_slash_none:
  "b = [] \<or> last b \<noteq> CHR ''/'' \<Longrightarrow> replace_trailing_slash b = b"
  by (auto simp add: replace_trailing_slash_def)

lemma operation_urls:
  assumes "\<And>res. fst (K res) = []"
  shows "requested_urls
           (fst (io_bind (authHeaders rt c) (\<lambda>headers. io_bind (await_fetch rt (R headers)) K))) =
         authEndpoint (oauth c) #
           (case snd (authHeaders rt c) of Inl e \<Rightarrow> [] | Inr hs \<Rightarrow> [req_url (R hs)])"
proof -
  obtain tr r where a: "authHeaders rt c = (tr, r)"
    by (cases "authHeaders rt c") simp
  then have tr: "requested_urls tr = [authEndpoint (oauth c)]"
    using authHeaders_urls [of rt c] by simp
  show ?thesis
  proof (cases r)
    case (Inl e)
    with a tr show ?thesis by (simp add: bind_failed)
  next
    case (Inr hs)
    with a tr assms show ?thesis
      by (simp add: bind_fetch requested_urls_append split: option.splits)
  qed
qed

lemma normalized_json_events: "fst (normalized_json res) = []"
  by (simp add: normalized_json_def io_throw_def io_return_def split: sum.splits)

lemma listWebhooks_urls:
  "requested_urls (fst (listWebhooks rt c)) =
     authEndpoint (oauth c) #
       (case snd (authHeaders rt c) of Inl e \<Rightarrow> [] | Inr hs \<Rightarrow> [appUrl c ''/webhooks''])"
proof -
  have "requested_urls (fst (listWebhooks rt c)) =
     authEndpoint (oauth c) #
       (case snd (authHeaders rt c) of
          Inl e \<Rightarrow> []
        | Inr hs \<Rightarrow> [req_url (api_request c ''GET'' ''/webhooks'' hs NoBody)])"
    unfolding listWebhooks_def
    by (rule operation_urls) (simp add: io_throw_def io_return_def split: sum.splits)
  then show ?thesis by (simp add: api_request_def split: sum.splits)
qed

lemma createWebhook_urls:
  "requested_urls (fst (createWebhook rt c req)) =
     authEndpoint (oauth c) #
       (case snd (authHeaders rt c) of Inl e \<Rightarrow> [] | Inr hs \<Rightarrow> [appUrl c ''/webhooks''])"
proof -
  have "requested_urls (fst (createWebhook rt c req)) =
     authEndpoint (oauth c) #
       (case snd (authHeaders rt c) of
          Inl e \<Rightarrow> []
        | Inr hs \<Rightarrow>
            [req_url (api_request c ''POST'' ''/webhooks''
                        (hs @ [(''Content-Type'', ''application/json'')])
                        (JsonBody (Obj (spread [(''_kind'', Str ''Webhook'')] (Obj req)))))])"
    unfolding createWebhook_def
    by (rule operation_urls) (simp add: io_throw_def normalized_json_events)
  then show ?thesis by (simp add: api_request_def split: sum.splits)
qed

lemma enableWebhook_urls:
  "requested_urls (fst (enableWebhook rt c wid)) =
     authEndpoint (oauth c) #
       (case snd (authHeaders rt c) of
          Inl e \<Rightarrow> []
        | Inr hs \<Rightarrow> [appUrl c (''/webhooks/'' @ encodeURIComponent wid @ ''/enable'')])"
proof -
  have "requested_urls (fst (enableWebhook rt c wid)) =
     authEndpoint (oauth c) #
       (case snd (authHeaders rt c) of
          Inl e \<Rightarrow> []
        | Inr hs \<Rightarrow>
            [req_url (api_request c ''POST'' (''/webhooks/'' @ encodeURIComponent wid @ ''/enable'')
                        hs NoBody)])"
    unfolding enableWebhook_def
    by (rule operation_urls) (simp add: io_throw_def normalized_json_events)
  then show ?thesis by (simp add: api_request_def split: sum.splits)
qed

lemma disableWebhook_urls:
  "requested_urls (fst (disableWebhook rt c wid)) =
     authEndpoint (oauth c) #
       (case snd (authHeaders rt c) of
          Inl e \<Rightarrow> []
        | Inr hs \<Rightarrow> [appUrl c (''/webhooks/'' @ encodeURIComponent wid @ ''/disable'')])"
proof -
  have "requested_urls (fst (disableWebhook rt c wid)) =
     authEndpoint (oauth c) #
       (case snd (authHeaders rt c) of
          Inl e \<Rightarrow> []
        | Inr hs \<Rightarrow>
            [req_url (api_request c ''POST'' (''/webhooks/'' @ encodeURIComponent wid @ ''/disable'')
                        hs NoBody)])"
    unfolding disableWebhook_def
    by (rule operation_urls) (simp add: io_throw_def normalized_json_events)
  then show ?thesis by (simp add: api_request_def split: sum.splits)
qed

lemma deleteWebhook_urls:
  "requested_urls (fst (deleteWebhook rt c wid)) =
     authEndpoint (oauth c) #
       (case snd (authHeaders rt c) of
          Inl e \<Rightarrow> []
        | Inr hs \<Rightarrow> [appUrl c (''/webhooks/'' @ encodeURIComponent wid)])"
proof -
  have "requested_urls (fst (deleteWebhook rt c wid)) =
     authEndpoint (oauth c) #
       (case snd (authHeaders rt c) of
          Inl e \<Rightarrow> []
        | Inr hs \<Rightarrow>
            [req_url (api_request c ''DELETE'' (''/webhooks/'' @ encodeURIComponent wid) hs NoBody)])"
    unfolding deleteWebhook_def
    by (rule operation_urls) (simp add: io_throw_def io_return_def)
  then show ?thesis by (simp add: api_request_def split: sum.splits)
qed

lemma hex_unreserved: "d < 16 \<Longrightarrow> unreserved (hex_digit d)"
proof -
  assume "d < 16"
  then have "d = 0 \<or> d = 1 \<or> d = 2 \<or> d = 3 \<or> d = 4 \<or> d = 5 \<or> d = 6 \<or> d = 7 \<or> d = 8 \<or>
             d = 9 \<or> d = 10 \<or> d = 11 \<or> d = 12 \<or> d = 13 \<or> d = 14 \<or> d = 15"
    by arith
  then show ?thesis
    by (auto simp add: hex_digit_def unreserved_def)
qed

lemma percent_safe:
  "b < 256 \<Longrightarrow> c \<in> set (percent b) \<Longrightarrow> unreserved c \<or> c = CHR ''%''"
proof -
  assume b: "b < 256" and c: "c \<in> set (percent b)"
  from b have "b div 16 < 16" and "b mod 16 < 16" by simp_all
  then have "unreserved (hex_digit (b div 16))" and "unreserved (hex_digit (b mod 16))"
    by (simp_all add: hex_unreserved)
  with c show ?thesis by (auto simp add: percent_def)
qed

lemma encode_unit_safe:
  "x \<in> set (encode_unit c) \<Longrightarrow> unreserved x \<or> x = CHR ''%''"
proof -
  assume x: "x \<in> set (encode_unit c)"
  have n: "(of_char c :: nat) < 256" by (rule nat_of_char_less_256)
  then have "(of_char c :: nat) div 64 < 4"
    by (simp add: less_mult_imp_div_less)
  then have hi: "192 + (of_char c :: nat) div 64 < 256"
    by simp
  have "(of_char c :: nat) mod 64 < 64"
    by simp
  then have lo: "128 + (of_char c :: nat) mod 64 < 256"
    by simp
  from x show ?thesis
    using percent_safe [OF n, of x] percent_safe [OF hi, of x] percent_safe [OF lo, of x]
    by (auto simp add: encode_unit_def split: if_splits)
qed

lemma encodeURIComponent_safe:
  "x \<in> set (encodeURIComponent s) \<Longrightarrow> unreserved x \<or> x = CHR ''%''"
  by (auto simp add: encodeURIComponent_def dest: encode_unit_safe)

lemma encodeURIComponent_no_slash: "CHR ''/'' \<notin> set (encodeURIComponent s)"
proof
  assume "CHR ''/'' \<in> set (encodeURIComponent s)"
  then have "unreserved CHR ''/'' \<or> CHR ''/'' = CHR ''%''"
    by (rule encodeURIComponent_safe)
  then show False by (simp add: unreserved_def)
qed

lemma encodeURIComponent_unreserved:
  "list_all unreserved s \<Longrightarrow> encodeURIComponent s = s"
  by (induction s) (simp_all add: encodeURIComponent_def encode_unit_def)

text \<open>
  C9. The constructor removes one trailing slash from \<open>baseUrl\<close> (only one, and none from a
  \<open>baseUrl\<close> that does not end with a slash) and keeps the application id as it is. Every
  operation first asks the token endpoint and then, when it has the token, sends one
  request to \<open>baseUrl/applications/applicationId/webhooks\<close>: to that path itself for
  \<open>createWebhook\<close> and \<open>listWebhooks\<close>, and for the three others followed by \<open>/\<close>, the
  percent-encoded webhook identifier, and \<open>/enable\<close>, \<open>/disable\<close> or nothing. The encoded
  identifier holds no slash, and an identifier of unreserved characters is its own encoding.
\<close>

theorem request_paths:
  "baseUrl (constructor (config\<lparr>baseUrl := b @ ''/''\<rparr>)) = b
   \<and> (b = [] \<or> last b \<noteq> CHR ''/'' \<longrightarrow> baseUrl (constructor (config\<lparr>baseUrl := b\<rparr>)) = b)
   \<and> applicationId (constructor config) = applicationId config
   \<and> requested_urls (fst (createWebhook rt c req)) =
       authEndpoint (oauth c) #
         (case snd (authHeaders rt c) of
            Inl e \<Rightarrow> []
          | Inr hs \<Rightarrow> [baseUrl c @ ''/applications/'' @ applicationId c @ ''/webhooks''])
   \<and> requested_urls (fst (listWebhooks rt c)) =
       authEndpoint (oauth c) #
         (case snd (authHeaders rt c) of
            Inl e \<Rightarrow> []
          | Inr hs \<Rightarrow> [baseUrl c @ ''/applications/'' @ applicationId c @ ''/webhooks''])
   \<and> requested_urls (fst (enableWebhook rt c wid)) =
       authEndpoint (oauth c) #
         (case snd (authHeaders rt c) of
            Inl e \<Rightarrow> []
          | Inr hs \<Rightarrow>
              [baseUrl c @ ''/applications/'' @ applicationId c @ ''/webhooks/'' @
               encodeURIComponent wid @ ''/enable''])
   \<and> requested_urls (fst (disableWebhook rt c wid)) =
       authEndpoint (oauth c) #
         (case snd (authHeaders rt c) of
            Inl e \<Rightarrow> []
          | Inr hs \<Rightarrow>
              [baseUrl c @ ''/applications/'' @ applicationId c @ ''/webhooks/'' @
               encodeURIComponent wid @ ''/disable''])
   \<and> requested_urls (fst (deleteWebhook rt c wid)) =
       authEndpoint (oauth c) #
         (case snd (authHeaders rt c) of
            Inl e \<Rightarrow> []
          | Inr hs \<Rightarrow>
              [baseUrl c @ ''/applications/'' @ applicationId c @ ''/webhooks/'' @
               encodeURIComponent wid])
   \<and> CHR ''/'' \<notin> set (encodeURIComponent wid)
   \<and> (list_all unreserved wid \<longrightarrow> encodeURIComponent wid = wid)"
proof (intro conjI impI)
  show "baseUrl (constructor (config\<lparr>baseUrl := b @ ''/''\<rparr>)) = b"
    using replace_trailing_slash_one [of b] by (simp add: constructor_def)
next
  assume "b = [] \<or> last b \<noteq> CHR ''/''"
  then show "baseUrl (constructor (config\<lparr>baseUrl := b\<rparr>)) = b"
    by (simp add: constructor_def replace_trailing_slash_none)
next
  show "applicationId (constructor config) = applicationId config"
    by (simp add: constructor_def)
next
  show "CHR ''/'' \<notin> set (encodeURIComponent wid)"
    by (rule encodeURIComponent_no_slash)
next
  assume "list_all unreserved wid"
  then show "encodeURIComponent wid = wid"
    by (rule encodeURIComponent_unreserved)
qed (simp_all add: createWebhook_urls listWebhooks_urls enableWebhook_urls disableWebhook_urls
    deleteWebhook_urls appUrl_def split: sum.splits)

theorem request_paths_witness:
  "baseUrl (constructor example_config) = ''https://api.carerix.io/webhooks/v1''
   \<and> baseUrl (constructor (example_config\<lparr>baseUrl := ''https://h//''\<rparr>)) = ''https://h/''
   \<and> baseUrl (constructor (example_config\<lparr>baseUrl := ''https://h''\<rparr>)) = ''https://h''
   \<and> requested_urls
        (fst (enableWebhook (example_runtime token_response token_response)
                (constructor example_config) ''a/b c'')) =
       [''https://id.carerix.io/token'',
        ''https://api.carerix.io/webhooks/v1/applications/app-1/webhooks/a%2Fb%20c/enable'']
   \<and> requested_urls
        (fst (listWebhooks (example_runtime (ok_response ''{}'' (Obj [])) token_response)
                (constructor example_config))) =
       [''https://id.carerix.io/token'']"
proof -
  have enc: "encodeURIComponent ''a/b c'' = ''a%2Fb%20c''"
    by (simp add: encodeURIComponent_def encode_unit_def unreserved_def percent_def hex_digit_def)
  have cfg: "example_config = example_config\<lparr>baseUrl := ''https://api.carerix.io/webhooks/v1'' @ ''/''\<rparr>"
    by (simp add: example_config_def)
  have a: "baseUrl (constructor example_config) = ''https://api.carerix.io/webhooks/v1''"
    using request_paths [where config = example_config and b = "''https://api.carerix.io/webhooks/v1''"] cfg
    by simp
  have b: "baseUrl (constructor (example_config\<lparr>baseUrl := ''https://h//''\<rparr>)) = ''https://h/''"
    using request_paths [where config = example_config and b = "''https://h/''"] by simp
  have c: "baseUrl (constructor (example_config\<lparr>baseUrl := ''https://h''\<rparr>)) = ''https://h''"
    using request_paths [where config = example_config and b = "''https://h''"] by simp
  have ids: "applicationId (constructor example_config) = ''app-1''"
    "authEndpoint (oauth (constructor example_config)) = ''https://id.carerix.io/token''"
    by (simp_all add: constructor_def example_config_def)
  have d: "requested_urls
        (fst (enableWebhook (example_runtime token_response token_response)
                (constructor example_config) ''a/b c'')) =
       [''https://id.carerix.io/token'',
        ''https://api.carerix.io/webhooks/v1/applications/app-1/webhooks/a%2Fb%20c/enable'']"
    using request_paths [where rt = "example_runtime token_response token_response"
        and c = "constructor example_config" and wid = "''a/b c''"]
      example_auth [of token_response] a enc ids
    by simp
  have fail: "snd (authHeaders (example_runtime (ok_response ''{}'' (Obj [])) token_response)
                (constructor example_config)) = Inl (Error ''No access_token in OAuth response'')"
    by (simp add: authHeaders_result getAccessToken_result token_request_constructor
        example_runtime_def ok_response_def ok_def)
  have e: "requested_urls
        (fst (listWebhooks (example_runtime (ok_response ''{}'' (Obj [])) token_response)
                (constructor example_config))) =
       [''https://id.carerix.io/token'']"
    using request_paths [where rt = "example_runtime (ok_response ''{}'' (Obj [])) token_response"
        and c = "constructor example_config"] fail ids
    by simp
  from a b c d e show ?thesis by simp
qed

end
